theory Spec2Isabelle
  imports Complex_Main
begin

section \<open>Numbers\<close>

text \<open>
  The programs compute with JavaScript numbers. In this development a \<open>number\<close> that holds a
  measurement (luminance, lightness, contrast, a random draw) is a \<^typ>\<open>real\<close>, and a
  \<open>number\<close> that holds a count, a step or a colour channel is an \<^typ>\<open>int\<close>. Rounding error of
  IEEE doubles is therefore outside the model: every statement below is about the exact
  real-valued reading of the arithmetic in the source.

  \<open>Math.round\<close> rounds to the nearest integer with ties towards \<open>+\<infinity>\<close>, \<open>Math.floor\<close> is the floor.
\<close>

definition Math_round :: "real \<Rightarrow> int" where
  "Math_round x = \<lfloor>x + 1 / 2\<rfloor>"

definition Math_floor :: "real \<Rightarrow> int" where
  "Math_floor x = \<lfloor>x\<rfloor>"

section \<open>Catalog generator: lightness quantization\<close>

text \<open>The \<open>CONFIG\<close> of the catalog generator.\<close>

definition LIGHTNESS_PRECISION :: real where
  "LIGHTNESS_PRECISION = 100"

definition LIGHTNESS_CAP_THRESHOLD :: real where
  "LIGHTNESS_CAP_THRESHOLD = 0.995"

definition NEAR_WHITE_LIGHTNESS :: real where
  "NEAR_WHITE_LIGHTNESS = 0.99"

definition PURE_WHITE_LIGHTNESS :: real where
  "PURE_WHITE_LIGHTNESS = 1.0"

definition roundLightness :: "real \<Rightarrow> real" where
  "roundLightness ok_l =
     (if ok_l \<ge> LIGHTNESS_CAP_THRESHOLD \<and> ok_l < PURE_WHITE_LIGHTNESS then NEAR_WHITE_LIGHTNESS
      else if ok_l \<ge> PURE_WHITE_LIGHTNESS then PURE_WHITE_LIGHTNESS
      else real_of_int (Math_round (ok_l * LIGHTNESS_PRECISION)) / LIGHTNESS_PRECISION)"


section \<open>Lightness table builder\<close>

text \<open>
  The \<open>CONFIG\<close> of the table builder. Its \<open>LIGHTNESS_PRECISION\<close> is the constant of the same name
  and value above.
\<close>

definition SCALE_MAX :: int where
  "SCALE_MAX = 1000"

definition WCAG_MAX_CONTRAST :: real where
  "WCAG_MAX_CONTRAST = 21"

definition WCAG_LUMINANCE_OFFSET :: real where
  "WCAG_LUMINANCE_OFFSET = 0.05"

definition WCAG_THRESHOLD :: real where
  "WCAG_THRESHOLD = 0.18"

definition D65_X_FACTOR :: real where
  "D65_X_FACTOR = 0.3127 / 0.329"

definition D65_Z_FACTOR :: real where
  "D65_Z_FACTOR = (1 - 0.3127 - 0.329) / 0.329"

definition TOE_K1 :: real where
  "TOE_K1 = 0.206"

definition TOE_K2 :: real where
  "TOE_K2 = 0.03"

definition TOE_K3 :: real where
  "TOE_K3 = (1 + 0.206) / (1 + 0.03)"

definition XYZ_TO_LMS_MATRIX :: "real list list" where
  "XYZ_TO_LMS_MATRIX =
     [[0.8189330101, 0.3618667424, - 0.1288597137],
      [0.0329845436, 0.9293118715, 0.0361456387],
      [0.0482003018, 0.2643662691, 0.633851707]]"

definition LMS_TO_OKLAB_MATRIX :: "real list list" where
  "LMS_TO_OKLAB_MATRIX =
     [[0.2104542553, 0.793617785, - 0.0040720468],
      [1.9779984951, - 2.428592205, 0.4505937099],
      [0.0259040371, 0.7827717662, - 0.808675766]]"

text \<open>The two \<open>throw new Error(...)\<close> of \<open>reverseWCAGContrast\<close>, with the offending value.\<close>

datatype error = InvalidLuminance real | InvalidContrast real

definition scaleToContrast :: "real \<Rightarrow> real" where
  "scaleToContrast scaleValue =
     (let normalizedValue = scaleValue / real_of_int SCALE_MAX
      in exp (ln WCAG_MAX_CONTRAST * normalizedValue))"

definition reverseWCAGContrast :: "real \<Rightarrow> real \<Rightarrow> error + real" where
  "reverseWCAGContrast contrast y =
     (if \<not> (y \<ge> 0 \<and> y \<le> 1) then Inl (InvalidLuminance y)
      else if \<not> (contrast \<ge> 1 \<and> contrast \<le> WCAG_MAX_CONTRAST) then Inl (InvalidContrast contrast)
      else
        let output =
          (if y > WCAG_THRESHOLD
           then (y + WCAG_LUMINANCE_OFFSET) / contrast - WCAG_LUMINANCE_OFFSET
           else contrast * (y + WCAG_LUMINANCE_OFFSET) - WCAG_LUMINANCE_OFFSET)
        in Inr (max 0 (min 1 output)))"

text \<open>
  \<open>Math.cbrt\<close> is \<^term>\<open>root 3\<close>. \<open>Math.sqrt\<close> is \<^const>\<open>sqrt\<close>: the two agree on non-negative
  arguments, and the argument of the square root in \<open>toe\<close> is positive for every real \<open>L\<close>
  (lemma \<open>toe_radicand_pos\<close> below), so the \<open>NaN\<close> of a negative argument does not arise.
\<close>

definition yToOklabLightness :: "real \<Rightarrow> real" where
  "yToOklabLightness inputY =
     (let X = D65_X_FACTOR * inputY;
          Y = inputY;
          Z = D65_Z_FACTOR * inputY;
          l = XYZ_TO_LMS_MATRIX ! 0 ! 0 * X + XYZ_TO_LMS_MATRIX ! 0 ! 1 * Y + XYZ_TO_LMS_MATRIX ! 0 ! 2 * Z;
          m = XYZ_TO_LMS_MATRIX ! 1 ! 0 * X + XYZ_TO_LMS_MATRIX ! 1 ! 1 * Y + XYZ_TO_LMS_MATRIX ! 1 ! 2 * Z;
          s = XYZ_TO_LMS_MATRIX ! 2 ! 0 * X + XYZ_TO_LMS_MATRIX ! 2 ! 1 * Y + XYZ_TO_LMS_MATRIX ! 2 ! 2 * Z;
          l = max 0 l;
          m = max 0 m;
          s = max 0 s;
          l_prime = root 3 l;
          m_prime = root 3 m;
          s_prime = root 3 s
      in LMS_TO_OKLAB_MATRIX ! 0 ! 0 * l_prime
         + LMS_TO_OKLAB_MATRIX ! 0 ! 1 * m_prime
         + LMS_TO_OKLAB_MATRIX ! 0 ! 2 * s_prime)"

definition toe :: "real \<Rightarrow> real" where
  "toe L =
     (let k3L_m_k1 = TOE_K3 * L - TOE_K1
      in 0.5 * (k3L_m_k1 + sqrt (k3L_m_k1 * k3L_m_k1 + 4 * TOE_K2 * TOE_K3 * L)))"

definition yToOkhslLightness :: "real \<Rightarrow> real" where
  "yToOkhslLightness inputY = toe (yToOklabLightness inputY)"

text \<open>\<open>reverseWCAGContrast(wcagContrast)\<close> is called with the default reference luminance \<open>y = 1\<close>.\<close>

definition computeLightness :: "int \<Rightarrow> error + real" where
  "computeLightness step =
     (let wcagContrast = scaleToContrast (real_of_int step)
      in case reverseWCAGContrast wcagContrast 1 of
           Inl e \<Rightarrow> Inl e
         | Inr targetLuminance \<Rightarrow> Inr (yToOkhslLightness targetLuminance))"

text \<open>
  The rounding in the body of the loop of \<open>computeAllLightnessValues\<close>
  (\<open>Math.round(lightness * CONFIG.LIGHTNESS_PRECISION) / CONFIG.LIGHTNESS_PRECISION\<close>).
\<close>

definition roundedLightness :: "real \<Rightarrow> real" where
  "roundedLightness lightness =
     real_of_int (Math_round (lightness * LIGHTNESS_PRECISION)) / LIGHTNESS_PRECISION"

text \<open>
  The loop \<open>for (let step = 0; step <= CONFIG.SCALE_MAX; step++)\<close>, with the object
  \<open>lightnessValues\<close> as a map from step to number. An exception of \<open>computeLightness\<close> leaves
  the loop.
\<close>

function computeAllLightnessValues_loop :: "int \<Rightarrow> (int \<rightharpoonup> real) \<Rightarrow> error + (int \<rightharpoonup> real)" where
  "computeAllLightnessValues_loop step lightnessValues =
     (if step \<le> SCALE_MAX then
        (case computeLightness step of
           Inl e \<Rightarrow> Inl e
         | Inr lightness \<Rightarrow>
             computeAllLightnessValues_loop (step + 1)
               (lightnessValues(step \<mapsto> roundedLightness lightness)))
      else Inr lightnessValues)"
  by pat_completeness auto
termination
  by (relation "measure (\<lambda>(step, lightnessValues). nat (SCALE_MAX + 1 - step))") auto

declare computeAllLightnessValues_loop.simps [simp del]

definition computeAllLightnessValues :: "error + (int \<rightharpoonup> real)" where
  "computeAllLightnessValues = computeAllLightnessValues_loop 0 Map.empty"

section \<open>Contrast search: data\<close>

text \<open>
  The interface \<open>Color\<close> of the search. Its fields \<open>r\<close>, \<open>g\<close>, \<open>b\<close>, \<open>y\<close>, \<open>rounded_ok_l\<close> carry the
  prefix \<open>Color_\<close> here, so that the one-letter names stay free for variables.
\<close>

record Color =
  Color_r :: int
  Color_g :: int
  Color_b :: int
  Color_y :: real
  Color_rounded_ok_l :: real

text \<open>
  The interface \<open>TestState\<close>. The field \<open>testedCombinations\<close> holds a \<open>BloomFilter\<close> object; here it
  is the reference of that object in a store of filter objects (the field \<open>filters\<close> of a
  \<open>world\<close> below), so that two tests can be asked whether they used the same object.
\<close>

record TestState =
  distance :: int
  testCount :: int
  totalTestsRun :: int
  testedCombinations :: nat

text \<open>The \<open>CONFIG\<close> of the search.\<close>

definition RGB_MULTIPLIERS_RED :: int where
  "RGB_MULTIPLIERS_RED = 65536"

definition RGB_MULTIPLIERS_GREEN :: int where
  "RGB_MULTIPLIERS_GREEN = 256"

definition RGB_MULTIPLIERS_BLUE :: int where
  "RGB_MULTIPLIERS_BLUE = 1"

definition MIN_RATIO :: real where
  "MIN_RATIO = 4.5"

definition INITIAL_DISTANCE :: int where
  "INITIAL_DISTANCE = 571"

definition MAX_STEP :: int where
  "MAX_STEP = 1000"

definition MAX_TESTS :: int where
  "MAX_TESTS = 100000000"

section \<open>Contrast search: the canonical pair key\<close>

definition rgbToNumericValue :: "Color \<Rightarrow> int" where
  "rgbToNumericValue color =
     Color_r color * RGB_MULTIPLIERS_RED
     + Color_g color * RGB_MULTIPLIERS_GREEN
     + Color_b color * RGB_MULTIPLIERS_BLUE"

text \<open>
  The template literal of \<open>createColorPairKey\<close> writes each channel as text. The channels are
  integers, for which the text of a JavaScript number is the decimal numeral, with a leading
  \<open>-\<close> for a negative one (for magnitudes below \<open>10^21\<close>, far above any channel; beyond that
  JavaScript switches to exponent notation, which is not modelled).
\<close>

definition digitChar :: "nat \<Rightarrow> char" where
  "digitChar d = ''0123456789'' ! d"

function natToString :: "nat \<Rightarrow> string" where
  "natToString n =
     (if n < 10 then [digitChar n] else natToString (n div 10) @ [digitChar (n mod 10)])"
  by pat_completeness auto
termination
  by (relation "measure (\<lambda>n. n)") auto

declare natToString.simps [simp del]

definition numberToString :: "int \<Rightarrow> string" where
  "numberToString i =
     (if i < 0 then CHR ''-'' # natToString (nat (- i)) else natToString (nat i))"

definition createColorPairKey :: "Color \<Rightarrow> Color \<Rightarrow> string" where
  "createColorPairKey color1 color2 =
     (let val1 = rgbToNumericValue color1;
          val2 = rgbToNumericValue color2;
          (first, second) = (if val1 \<le> val2 then (color1, color2) else (color2, color1))
      in numberToString (Color_r first) @ '','' @ numberToString (Color_g first) @ '',''
         @ numberToString (Color_b first) @ ''|''
         @ numberToString (Color_r second) @ '','' @ numberToString (Color_g second) @ '',''
         @ numberToString (Color_b second))"

section \<open>Contrast search: the loop\<close>

text \<open>
  Modelled from the spec: the function \<open>luminance\<close> of the package \<open>wcag-contrast\<close>, which the
  search imports and which is not among the sources. The spec gives
  \<open>contrast = (max(y1, y2) + 0.05) / (min(y1, y2) + 0.05)\<close>.
\<close>

definition wcagContrast_luminance :: "real \<Rightarrow> real \<Rightarrow> real" where
  "wcagContrast_luminance a b = (max a b + 0.05) / (min a b + 0.05)"

text \<open>
  What the loop reads and does not change: the two arguments \<open>lightnessValues\<close> (the parsed JSON
  object; a property that is absent reads as \<open>undefined\<close>, here \<open>None\<close>) and \<open>colorsByLightness\<close>
  (a \<open>Map\<close> from number to array), and the two collaborators from outside the repository.
  \<open>Math_random env k\<close> is the value of the \<open>k\<close>-th call of \<open>Math.random()\<close>, a number in \<open>[0, 1)\<close>.
  The class \<open>BloomFilter\<close> of the package \<open>bloom-filters\<close> is a parameter: \<open>'f\<close> is the content of
  a filter, \<open>BloomFilter_create\<close> the content that
  \<open>BloomFilter.create(EXPECTED_ITEMS, FALSE_POSITIVE_RATE)\<close> returns, \<open>BloomFilter_has\<close> and
  \<open>BloomFilter_add\<close> its methods \<open>has\<close> and \<open>add\<close>.
\<close>

record 'f env =
  lightnessValues :: "int \<rightharpoonup> real"
  colorsByLightness :: "real \<rightharpoonup> Color list"
  Math_random :: "nat \<Rightarrow> real"
  BloomFilter_create :: "'f"
  BloomFilter_has :: "'f \<Rightarrow> string \<Rightarrow> bool"
  BloomFilter_add :: "'f \<Rightarrow> string \<Rightarrow> 'f"

text \<open>
  What the loop changes: the \<open>TestState\<close>, the filter objects allocated so far (\<open>filters w ! ref\<close>
  is the content of the object with reference \<open>ref\<close>), and the number of calls of
  \<open>Math.random()\<close> made so far.
\<close>

record 'f world =
  state :: TestState
  filters :: "'f list"
  randomCalls :: nat

text \<open>
  What one pass through the body of the loop did: it found no colour for one of the two
  lightness values (the warning is logged, \<open>continue\<close>), it found the pair key in the filter
  (\<open>continue\<close>), or it passed the pair to \<open>wcagContrast.luminance\<close>. \<open>Tested d ref pairKey contrast\<close>
  records the distance and the filter object at the time of the test, the key and the contrast.
  The other console output of the loop is not modelled.
\<close>

datatype event =
  NoColors
  | AlreadyTested string
  | Tested int nat string real

text \<open>
  \<open>getRandomColorWithLightness\<close> returns \<open>null\<close> without a call of \<open>Math.random()\<close> when the map has
  no array for the lightness (also when the lightness is \<open>undefined\<close>) or the array is empty.
  An index outside the array reads as \<open>undefined\<close>, which the test \<open>!color\<close> of the loop treats as
  \<open>null\<close>. The last argument and the second result count the calls of \<open>Math.random()\<close>.
\<close>

definition getRandomColorWithLightness ::
  "(nat \<Rightarrow> real) \<Rightarrow> (real \<rightharpoonup> Color list) \<Rightarrow> real option \<Rightarrow> nat \<Rightarrow> Color option \<times> nat" where
  "getRandomColorWithLightness random byLightness lightness calls =
     (case (case lightness of None \<Rightarrow> None | Some l \<Rightarrow> byLightness l) of
        None \<Rightarrow> (None, calls)
      | Some colors \<Rightarrow>
          if length colors = 0 then (None, calls)
          else
            let randomIndex = Math_floor (random calls * real (length colors))
            in (if 0 \<le> randomIndex \<and> randomIndex < int (length colors)
                then Some (colors ! nat randomIndex) else None,
                calls + 1))"

definition createBloomFilter :: "'f env \<Rightarrow> 'f list \<Rightarrow> nat \<times> 'f list" where
  "createBloomFilter env fs = (length fs, fs @ [BloomFilter_create env])"

text \<open>
  The first half of the body of the loop, up to the two colours: the draw of \<open>step1\<close>, the two
  lightness values and the two calls of \<open>getRandomColorWithLightness\<close>.
\<close>

definition sample :: "'f env \<Rightarrow> 'f world \<Rightarrow> (Color option \<times> Color option) \<times> nat" where
  "sample env w =
     (let step1 = Math_floor (Math_random env (randomCalls w)
                    * real_of_int (MAX_STEP + 1 - distance (state w)));
          step2 = step1 + distance (state w);
          lightness1 = lightnessValues env step1;
          lightness2 = lightnessValues env step2;
          (color1, calls1) =
            getRandomColorWithLightness (Math_random env) (colorsByLightness env) lightness1
              (randomCalls w + 1);
          (color2, calls2) =
            getRandomColorWithLightness (Math_random env) (colorsByLightness env) lightness2 calls1
      in ((color1, color2), calls2))"

text \<open>
  One pass through the body of the loop: the new world and what happened. On a contrast below
  \<open>MIN_RATIO\<close> the distance is increased, the counter reset and a new filter object created.
\<close>

definition iteration :: "'f env \<Rightarrow> 'f world \<Rightarrow> 'f world \<times> event" where
  "iteration env w =
     (case sample env w of
        ((Some color1, Some color2), calls) \<Rightarrow>
          let pairKey = createColorPairKey color1 color2;
              tested = filters w ! testedCombinations (state w)
          in if BloomFilter_has env tested pairKey
             then (w\<lparr>randomCalls := calls\<rparr>, AlreadyTested pairKey)
             else
               let fs = (filters w)[testedCombinations (state w) := BloomFilter_add env tested pairKey];
                   contrast = wcagContrast_luminance (Color_y color1) (Color_y color2);
                   st = (state w)\<lparr>testCount := testCount (state w) + 1,
                                  totalTestsRun := totalTestsRun (state w) + 1\<rparr>;
                   event = Tested (distance (state w)) (testedCombinations (state w)) pairKey contrast
               in if contrast < MIN_RATIO
                  then
                    let (ref, fs') = createBloomFilter env fs
                    in (\<lparr>state = st\<lparr>distance := distance st + 1, testCount := 0,
                                     testedCombinations := ref\<rparr>,
                         filters = fs', randomCalls = calls\<rparr>, event)
                  else (\<lparr>state = st, filters = fs, randomCalls = calls\<rparr>, event)
      | (_, calls) \<Rightarrow> (w\<lparr>randomCalls := calls\<rparr>, NoColors))"

text \<open>
  The loop \<open>while (state.testCount < CONFIG.TEST.MAX_TESTS)\<close>. It returns the world in which it
  is left, after which \<open>reportSuccess\<close> is called; \<open>None\<close> means that the loop is never left.
\<close>

partial_function (option) runContrastTests_loop :: "'f env \<Rightarrow> 'f world \<Rightarrow> 'f world option" where
  "runContrastTests_loop env w =
     (if testCount (state w) < MAX_TESTS
      then runContrastTests_loop env (fst (iteration env w))
      else Some w)"

definition initialWorld :: "'f env \<Rightarrow> 'f world" where
  "initialWorld env =
     (let (ref, fs) = createBloomFilter env []
      in \<lparr>state = \<lparr>distance = INITIAL_DISTANCE, testCount = 0, totalTestsRun = 0,
                    testedCombinations = ref\<rparr>,
          filters = fs, randomCalls = 0\<rparr>)"

definition runContrastTests :: "'f env \<Rightarrow> 'f world option" where
  "runContrastTests env = runContrastTests_loop env (initialWorld env)"

text \<open>
  The first \<open>n\<close> passes through the body of the loop (fewer when the loop is left before), with
  the list of what happened in them.
\<close>

fun iterations :: "nat \<Rightarrow> 'f env \<Rightarrow> 'f world \<Rightarrow> 'f world \<times> event list" where
  "iterations 0 env w = (w, [])"
| "iterations (Suc n) env w =
     (if testCount (state w) < MAX_TESTS
      then
        let (w', e) = iteration env w;
            (w'', es) = iterations n env w'
        in (w'', e # es)
      else (w, []))"
section \<open>Derived constants\<close>

text \<open>
  Two quantities that the source computes on the way and that the proofs name: the cone
  responses \<open>l\<close>, \<open>m\<close>, \<open>s\<close> of \<open>yToOklabLightness\<close> at luminance \<open>1\<close> (the D65 white), and
  the Oklab lightness of that white. For a luminance \<open>y \<ge> 0\<close> the function returns
  \<open>OKLAB_WHITE * root 3 y\<close> (lemma \<open>yToOklabLightness_form\<close>).
\<close>

definition WHITE_l :: real where
  "WHITE_l = 0.8189330101 * D65_X_FACTOR + 0.3618667424 + - 0.1288597137 * D65_Z_FACTOR"

definition WHITE_m :: real where
  "WHITE_m = 0.0329845436 * D65_X_FACTOR + 0.9293118715 + 0.0361456387 * D65_Z_FACTOR"

definition WHITE_s :: real where
  "WHITE_s = 0.0482003018 * D65_X_FACTOR + 0.2643662691 + 0.633851707 * D65_Z_FACTOR"

definition OKLAB_WHITE :: real where
  "OKLAB_WHITE =
     0.2104542553 * root 3 WHITE_l + 0.793617785 * root 3 WHITE_m + - 0.0040720468 * root 3 WHITE_s"

text \<open>
  For the pair key: the \<open>(r, g, b)\<close> triple of a colour, the text \<open>r,g,b\<close> that the template
  literal of \<open>createColorPairKey\<close> writes for one colour, and the range of the channels of an sRGB
  colour.
\<close>

definition rgb :: "Color \<Rightarrow> int \<times> int \<times> int" where
  "rgb color = (Color_r color, Color_g color, Color_b color)"

definition rgbString :: "Color \<Rightarrow> string" where
  "rgbString color =
     numberToString (Color_r color) @ '','' @ numberToString (Color_g color) @ '',''
     @ numberToString (Color_b color)"

definition channels_in_range :: "Color \<Rightarrow> bool" where
  "channels_in_range color \<longleftrightarrow>
     0 \<le> Color_r color \<and> Color_r color \<le> 255
     \<and> 0 \<le> Color_g color \<and> Color_g color \<le> 255
     \<and> 0 \<le> Color_b color \<and> Color_b color \<le> 255"


text \<open>
  For the runs of the search: the keys that a list of events passed to the contrast evaluator
  at distance \<open>d\<close>, in order; and the contract of a seen-set that never reports a false negative
  (a key that was added is reported, and stays reported when other keys are added).
\<close>

fun testedKeys :: "int \<Rightarrow> event list \<Rightarrow> string list" where
  "testedKeys d [] = []"
| "testedKeys d (Tested d' ref pairKey contrast # es) =
     (if d' = d then pairKey # testedKeys d es else testedKeys d es)"
| "testedKeys d (NoColors # es) = testedKeys d es"
| "testedKeys d (AlreadyTested pairKey # es) = testedKeys d es"

definition no_false_negatives :: "'f env \<Rightarrow> bool" where
  "no_false_negatives env \<longleftrightarrow>
     (\<forall>f k. BloomFilter_has env (BloomFilter_add env f k) k)
     \<and> (\<forall>f k k'. BloomFilter_has env f k \<longrightarrow> BloomFilter_has env (BloomFilter_add env f k') k)"

section \<open>Example inputs\<close>

text \<open>
  An exact seen-set (a list of the keys added), four colours, and four small inputs of the
  search. In \<open>greyEnv\<close> every step has lightness \<open>0.5\<close> and the catalog holds the single colour
  \<open>grey128\<close>, so that every test compares that colour with itself. In \<open>toyEnv\<close> the steps below
  \<open>300\<close> have lightness \<open>0.9\<close>, those below \<open>700\<close> lightness \<open>0.5\<close> and the others \<open>0.1\<close>, with one
  colour for each lightness; in both, \<open>Math.random()\<close> returns \<open>0\<close> at every call. \<open>pairEnv\<close> has
  the table of \<open>toyEnv\<close>, two colours of lightness \<open>0.5\<close>, and a random source whose draws make
  the first three iterations sample the pairs \<open>(grey128, grey10)\<close>, \<open>(grey130, grey10)\<close> and
  \<open>(grey128, grey10)\<close> again. \<open>gapEnv\<close> has the table of \<open>toyEnv\<close> and a catalog whose bucket of
  lightness \<open>0.5\<close> is empty and whose bucket of lightness \<open>0.1\<close> is absent. The predicate
  \<open>grey_escalating\<close> describes the worlds that the search on \<open>greyEnv\<close> passes through.
\<close>

definition exactSeenSet_has :: "string list \<Rightarrow> string \<Rightarrow> bool" where
  "exactSeenSet_has seen pairKey = (pairKey \<in> set seen)"

definition exactSeenSet_add :: "string list \<Rightarrow> string \<Rightarrow> string list" where
  "exactSeenSet_add seen pairKey = pairKey # seen"

definition grey128 :: Color where
  "grey128 = \<lparr>Color_r = 128, Color_g = 128, Color_b = 128, Color_y = 0.22, Color_rounded_ok_l = 0.5\<rparr>"

definition grey240 :: Color where
  "grey240 = \<lparr>Color_r = 240, Color_g = 240, Color_b = 240, Color_y = 0.87, Color_rounded_ok_l = 0.9\<rparr>"

definition grey10 :: Color where
  "grey10 = \<lparr>Color_r = 10, Color_g = 10, Color_b = 10, Color_y = 0.003, Color_rounded_ok_l = 0.1\<rparr>"

definition grey130 :: Color where
  "grey130 = \<lparr>Color_r = 130, Color_g = 126, Color_b = 129, Color_y = 0.21, Color_rounded_ok_l = 0.5\<rparr>"

definition greyEnv :: "string list env" where
  "greyEnv =
     \<lparr>lightnessValues = (\<lambda>step. if 0 \<le> step \<and> step \<le> 1000 then Some 0.5 else None),
      colorsByLightness = [0.5 \<mapsto> [grey128]],
      Math_random = (\<lambda>call. 0),
      BloomFilter_create = [],
      BloomFilter_has = exactSeenSet_has,
      BloomFilter_add = exactSeenSet_add\<rparr>"

definition toyEnv :: "string list env" where
  "toyEnv =
     \<lparr>lightnessValues =
        (\<lambda>step. if 0 \<le> step \<and> step \<le> 1000
                then Some (if step < 300 then 0.9 else if step < 700 then 0.5 else 0.1)
                else None),
      colorsByLightness = [0.1 \<mapsto> [grey10], 0.5 \<mapsto> [grey128], 0.9 \<mapsto> [grey240]],
      Math_random = (\<lambda>call. 0),
      BloomFilter_create = [],
      BloomFilter_has = exactSeenSet_has,
      BloomFilter_add = exactSeenSet_add\<rparr>"


definition pairEnv :: "string list env" where
  "pairEnv =
     \<lparr>lightnessValues =
        (\<lambda>step. if 0 \<le> step \<and> step \<le> 1000
                then Some (if step < 300 then 0.9 else if step < 700 then 0.5 else 0.1)
                else None),
      colorsByLightness = [0.1 \<mapsto> [grey10], 0.5 \<mapsto> [grey128, grey130], 0.9 \<mapsto> [grey240]],
      Math_random = (\<lambda>call. if call mod 3 = 0 then 0.75 else if call = 4 then 0.5 else 0),
      BloomFilter_create = [],
      BloomFilter_has = exactSeenSet_has,
      BloomFilter_add = exactSeenSet_add\<rparr>"

definition gapEnv :: "string list env" where
  "gapEnv =
     \<lparr>lightnessValues =
        (\<lambda>step. if 0 \<le> step \<and> step \<le> 1000
                then Some (if step < 300 then 0.9 else if step < 700 then 0.5 else 0.1)
                else None),
      colorsByLightness = [0.5 \<mapsto> [], 0.9 \<mapsto> [grey240]],
      Math_random = (\<lambda>call. 0),
      BloomFilter_create = [],
      BloomFilter_has = exactSeenSet_has,
      BloomFilter_add = exactSeenSet_add\<rparr>"

definition grey_escalating :: "string list world \<Rightarrow> bool" where
  "grey_escalating w \<longleftrightarrow>
     testCount (state w) = 0 \<and> 0 \<le> distance (state w)
     \<and> (distance (state w) \<le> 1000 \<longrightarrow>
          testedCombinations (state w) < length (filters w)
          \<and> filters w ! testedCombinations (state w) = [])"

lemmas catalog_config_defs =
  LIGHTNESS_PRECISION_def LIGHTNESS_CAP_THRESHOLD_def NEAR_WHITE_LIGHTNESS_def
  PURE_WHITE_LIGHTNESS_def

lemmas table_config_defs =
  SCALE_MAX_def WCAG_MAX_CONTRAST_def WCAG_LUMINANCE_OFFSET_def WCAG_THRESHOLD_def

section \<open>Properties of the lightness quantization\<close>

lemma roundLightness_below_cap:
  assumes "ok_l < 0.995"
  shows "roundLightness ok_l \<le> 0.99"
proof -
  have "ok_l * 100 + 1 / 2 < 100" using assms by simp
  then have "\<lfloor>ok_l * 100 + 1 / 2\<rfloor> < 100" by (simp add: floor_less_iff)
  then have "\<lfloor>ok_l * 100 + 1 / 2\<rfloor> \<le> 99" by simp
  then have "real_of_int \<lfloor>ok_l * 100 + 1 / 2\<rfloor> \<le> 99" by linarith
  then show ?thesis
    using assms by (simp add: roundLightness_def Math_round_def catalog_config_defs)
qed

lemma roundLightness_nonneg:
  assumes "0 \<le> ok_l"
  shows "0 \<le> roundLightness ok_l"
proof -
  have "0 \<le> \<lfloor>ok_l * 100 + 1 / 2\<rfloor>" using assms by simp
  then show ?thesis
    by (simp add: roundLightness_def Math_round_def catalog_config_defs)
qed

text \<open>
  C10. The quantization of the catalog generator keeps the pure-white bucket for pure white:
  an input in \<open>[0, 1)\<close> is mapped to at most \<open>0.99\<close>; the result is \<open>1.00\<close> exactly when the input
  is at least \<open>1.0\<close>; and an input in \<open>[0, 1]\<close> is mapped into \<open>[0, 1]\<close>.
\<close>

theorem roundLightness_white_bucket:
  "(0 \<le> ok_l \<and> ok_l < 1 \<longrightarrow> roundLightness ok_l \<le> 0.99)
   \<and> (roundLightness ok_l = 1 \<longleftrightarrow> ok_l \<ge> 1)
   \<and> (0 \<le> ok_l \<and> ok_l \<le> 1 \<longrightarrow> 0 \<le> roundLightness ok_l \<and> roundLightness ok_l \<le> 1)"
proof -
  have below: "roundLightness ok_l \<le> 0.99" if "ok_l < 1"
  proof (cases "ok_l < 0.995")
    case True
    then show ?thesis by (rule roundLightness_below_cap)
  next
    case False
    with that show ?thesis by (simp add: roundLightness_def catalog_config_defs)
  qed
  have one: "roundLightness ok_l = 1" if "ok_l \<ge> 1"
    using that by (simp add: roundLightness_def catalog_config_defs)
  have a: "0 \<le> ok_l \<and> ok_l < 1 \<longrightarrow> roundLightness ok_l \<le> 0.99"
    using below by simp
  have b: "roundLightness ok_l = 1 \<longleftrightarrow> ok_l \<ge> 1"
  proof
    assume "roundLightness ok_l = 1"
    show "ok_l \<ge> 1"
    proof (rule ccontr)
      assume "\<not> ok_l \<ge> 1"
      then have "roundLightness ok_l \<le> 0.99" using below by simp
      with \<open>roundLightness ok_l = 1\<close> show False by simp
    qed
  next
    assume "ok_l \<ge> 1"
    then show "roundLightness ok_l = 1" by (rule one)
  qed
  have c: "0 \<le> ok_l \<and> ok_l \<le> 1 \<longrightarrow> 0 \<le> roundLightness ok_l \<and> roundLightness ok_l \<le> 1"
  proof (intro impI conjI)
    assume h: "0 \<le> ok_l \<and> ok_l \<le> 1"
    then show "0 \<le> roundLightness ok_l" by (simp add: roundLightness_nonneg)
    show "roundLightness ok_l \<le> 1"
    proof (cases "ok_l < 1")
      case True
      then have "roundLightness ok_l \<le> 0.99" by (rule below)
      then show ?thesis by simp
    next
      case False
      then show ?thesis using one by simp
    qed
  qed
  from a b c show ?thesis by blast
qed

theorem roundLightness_white_bucket_witness:
  "roundLightness 0.997 \<le> 0.99 \<and> roundLightness 1 = 1
   \<and> 0 \<le> roundLightness 0.5 \<and> roundLightness 0.5 \<le> 1 \<and> roundLightness 0.5 = 0.5"
proof -
  have "roundLightness 0.997 \<le> 0.99"
    using roundLightness_white_bucket [of "0.997"] by simp
  moreover have "roundLightness 1 = 1"
    using roundLightness_white_bucket [of 1] by simp
  moreover have "0 \<le> roundLightness 0.5 \<and> roundLightness 0.5 \<le> 1"
    using roundLightness_white_bucket [of "0.5"] by simp
  moreover have "roundLightness 0.5 = 0.5"
    by (simp add: roundLightness_def Math_round_def catalog_config_defs)
  ultimately show ?thesis by blast
qed
section \<open>The lightness table: monotonicity and bounds\<close>

lemma exp_ln21_range:
  fixes t :: real
  assumes "0 \<le> t" "t \<le> 1"
  shows "1 \<le> exp (ln 21 * t) \<and> exp (ln 21 * t) \<le> 21"
proof -
  have l: "0 < ln (21::real)" by simp
  have "0 \<le> ln 21 * t" using assms l by simp
  then have lo: "1 \<le> exp (ln 21 * t)" by simp
  have a: "ln 21 * t \<le> ln 21" using l assms by (intro mult_left_le) simp_all
  have "exp (ln 21 * t) \<le> exp (ln (21::real))" using a by (simp only: exp_le_cancel_iff)
  also have "exp (ln (21::real)) = 21" by simp
  finally have hi: "exp (ln 21 * t) \<le> 21" .
  from lo hi show ?thesis ..
qed

lemma scaleToContrast_range:
  assumes "0 \<le> s" "s \<le> 1000"
  shows "1 \<le> scaleToContrast s \<and> scaleToContrast s \<le> 21"
proof -
  have "0 \<le> s / 1000" "s / 1000 \<le> 1" using assms by simp_all
  then have "1 \<le> exp (ln 21 * (s / 1000)) \<and> exp (ln 21 * (s / 1000)) \<le> 21"
    by (rule exp_ln21_range)
  then show ?thesis by (simp add: scaleToContrast_def table_config_defs)
qed

lemma scaleToContrast_mono:
  assumes "s1 \<le> s2"
  shows "scaleToContrast s1 \<le> scaleToContrast s2"
proof -
  have l: "0 < ln (21::real)" by simp
  have "s1 / 1000 \<le> s2 / 1000" using assms by simp
  then have "ln 21 * (s1 / 1000) \<le> ln 21 * (s2 / 1000)" using l by (intro mult_left_mono) simp_all
  then have "exp (ln 21 * (s1 / 1000)) \<le> exp (ln 21 * (s2 / 1000))" by (simp only: exp_le_cancel_iff)
  then show ?thesis by (simp add: scaleToContrast_def table_config_defs)
qed

lemma reverseWCAGContrast_valid:
  assumes "1 \<le> c" "c \<le> 21"
  shows "reverseWCAGContrast c 1 = Inr (max 0 (min 1 (1.05 / c - 0.05)))"
  using assms by (simp add: reverseWCAGContrast_def table_config_defs)

lemma target_antimono:
  assumes "1 \<le> c1" "c1 \<le> (c2::real)"
  shows "max 0 (min 1 (1.05 / c2 - 0.05)) \<le> max 0 (min 1 (1.05 / c1 - 0.05 :: real))"
proof -
  have "1.05 / c2 \<le> 1.05 / c1" using assms by (intro divide_left_mono) (simp_all)
  then show ?thesis by (simp add: max_def min_def)
qed

lemma toe_radicand_pos:
  "0 < (TOE_K3 * L - TOE_K1) * (TOE_K3 * L - TOE_K1) + 4 * TOE_K2 * TOE_K3 * L"
proof -
  define u where "u = TOE_K3 * L - TOE_K1"
  have k3: "TOE_K3 * L = u + TOE_K1" by (simp add: u_def)
  have "4 * TOE_K2 * TOE_K3 * L = 4 * TOE_K2 * (TOE_K3 * L)" by simp
  also have "\<dots> = 4 * TOE_K2 * (u + TOE_K1)" by (simp only: k3)
  finally have e: "u * u + 4 * TOE_K2 * TOE_K3 * L = (u + 2 * TOE_K2)\<^sup>2 + 4 * TOE_K2 * (TOE_K1 - TOE_K2)"
    by (simp add: power2_eq_square algebra_simps)
  have "0 < 4 * TOE_K2 * (TOE_K1 - TOE_K2)" by (simp add: TOE_K1_def TOE_K2_def)
  moreover have "0 \<le> (u + 2 * TOE_K2)\<^sup>2" by simp
  ultimately show ?thesis unfolding u_def [symmetric] e by linarith
qed

lemma shifted_sqrt_mono:
  fixes v1 v2 D :: real
  assumes "v1 \<le> v2" "0 \<le> D"
  shows "v1 + sqrt (v1\<^sup>2 + D) \<le> v2 + sqrt (v2\<^sup>2 + D)"
proof -
  let ?s = "sqrt (v2\<^sup>2 + D)"
  have s_abs: "\<bar>v2\<bar> \<le> ?s"
  proof -
    have "sqrt (v2\<^sup>2) \<le> ?s" using assms(2) by (intro real_sqrt_le_mono) simp
    then show ?thesis by simp
  qed
  have s0: "0 \<le> v2 + ?s" using s_abs by linarith
  have r0: "0 \<le> (v2 - v1) + ?s" using s_abs assms(1) by linarith
  have "v1\<^sup>2 + D \<le> ((v2 - v1) + ?s)\<^sup>2"
  proof -
    have ss: "?s\<^sup>2 = v2\<^sup>2 + D" using assms(2) by (simp add: add_nonneg_nonneg)
    have "((v2 - v1) + ?s)\<^sup>2 = (v2 - v1)\<^sup>2 + 2 * (v2 - v1) * ?s + ?s\<^sup>2"
      by (simp add: power2_sum)
    also have "\<dots> = v1\<^sup>2 + D + 2 * (v2 - v1) * (v2 + ?s)"
      unfolding ss by (simp add: power2_eq_square algebra_simps)
    finally have eq: "((v2 - v1) + ?s)\<^sup>2 = v1\<^sup>2 + D + 2 * (v2 - v1) * (v2 + ?s)" .
    have "0 \<le> 2 * (v2 - v1) * (v2 + ?s)" using s0 assms(1) by simp
    with eq show ?thesis by linarith
  qed
  then have "sqrt (v1\<^sup>2 + D) \<le> sqrt (((v2 - v1) + ?s)\<^sup>2)" by (rule real_sqrt_le_mono)
  also have "\<dots> = (v2 - v1) + ?s" using r0 by simp
  finally show ?thesis by linarith
qed

lemma toe_mono:
  assumes "L1 \<le> L2"
  shows "toe L1 \<le> toe L2"
proof -
  define D where "D = 4 * TOE_K2 * (TOE_K1 - TOE_K2)"
  have D0: "0 \<le> D" by (simp add: D_def TOE_K1_def TOE_K2_def)
  have k3: "0 \<le> TOE_K3" by (simp add: TOE_K3_def)
  have form: "toe L = 0.5 * ((TOE_K3 * L - TOE_K1 + 2 * TOE_K2)
      + sqrt ((TOE_K3 * L - TOE_K1 + 2 * TOE_K2)\<^sup>2 + D)) - TOE_K2" for L
  proof -
    have "(TOE_K3 * L - TOE_K1) * (TOE_K3 * L - TOE_K1) + 4 * TOE_K2 * TOE_K3 * L
        = (TOE_K3 * L - TOE_K1 + 2 * TOE_K2)\<^sup>2 + D"
      by (simp add: D_def power2_eq_square algebra_simps)
    then have "toe L = 0.5 * ((TOE_K3 * L - TOE_K1)
        + sqrt ((TOE_K3 * L - TOE_K1 + 2 * TOE_K2)\<^sup>2 + D))"
      by (simp only: toe_def Let_def)
    also have "\<dots> = 0.5 * ((TOE_K3 * L - TOE_K1 + 2 * TOE_K2)
        + sqrt ((TOE_K3 * L - TOE_K1 + 2 * TOE_K2)\<^sup>2 + D)) - TOE_K2"
      by (simp add: algebra_simps)
    finally show ?thesis .
  qed
  have "TOE_K3 * L1 \<le> TOE_K3 * L2" using assms k3 by (rule mult_left_mono)
  then have "TOE_K3 * L1 - TOE_K1 + 2 * TOE_K2 \<le> TOE_K3 * L2 - TOE_K1 + 2 * TOE_K2" by simp
  then have "(TOE_K3 * L1 - TOE_K1 + 2 * TOE_K2) + sqrt ((TOE_K3 * L1 - TOE_K1 + 2 * TOE_K2)\<^sup>2 + D)
      \<le> (TOE_K3 * L2 - TOE_K1 + 2 * TOE_K2) + sqrt ((TOE_K3 * L2 - TOE_K1 + 2 * TOE_K2)\<^sup>2 + D)"
    using D0 by (rule shifted_sqrt_mono)
  then show ?thesis unfolding form [of L1] form [of L2] by simp
qed

lemma WHITE_LMS_bounds:
  "0.729 \<le> WHITE_l" "0 \<le> WHITE_m" "0 \<le> WHITE_s" "WHITE_s \<le> 8"
  by (simp_all add: WHITE_l_def WHITE_m_def WHITE_s_def D65_X_FACTOR_def D65_Z_FACTOR_def)

lemma yToOklabLightness_form:
  assumes "0 \<le> y"
  shows "yToOklabLightness y = OKLAB_WHITE * root 3 y"
proof -
  have l: "0.8189330101 * (D65_X_FACTOR * y) + 0.3618667424 * y + - 0.1288597137 * (D65_Z_FACTOR * y) = WHITE_l * y"
    by (simp add: WHITE_l_def algebra_simps)
  have m: "0.0329845436 * (D65_X_FACTOR * y) + 0.9293118715 * y + 0.0361456387 * (D65_Z_FACTOR * y) = WHITE_m * y"
    by (simp add: WHITE_m_def algebra_simps)
  have s: "0.0482003018 * (D65_X_FACTOR * y) + 0.2643662691 * y + 0.633851707 * (D65_Z_FACTOR * y) = WHITE_s * y"
    by (simp add: WHITE_s_def algebra_simps)
  have l0: "0 \<le> WHITE_l * y" using WHITE_LMS_bounds(1) assms by simp
  have m0: "0 \<le> WHITE_m * y" using WHITE_LMS_bounds(2) assms by simp
  have s0: "0 \<le> WHITE_s * y" using WHITE_LMS_bounds(3) assms by simp
  have "yToOklabLightness y =
      0.2104542553 * root 3 (max 0 (WHITE_l * y)) + 0.793617785 * root 3 (max 0 (WHITE_m * y))
      + - 0.0040720468 * root 3 (max 0 (WHITE_s * y))"
    unfolding yToOklabLightness_def XYZ_TO_LMS_MATRIX_def LMS_TO_OKLAB_MATRIX_def Let_def
    by (simp only: nth_Cons_0 nth_Cons_Suc One_nat_def numeral_2_eq_2 l m s)
  also have "\<dots> = 0.2104542553 * root 3 (WHITE_l * y) + 0.793617785 * root 3 (WHITE_m * y)
      + - 0.0040720468 * root 3 (WHITE_s * y)"
    using l0 m0 s0 by (simp only: max_absorb2)
  also have "\<dots> = OKLAB_WHITE * root 3 y"
    by (simp add: OKLAB_WHITE_def real_root_mult algebra_simps)
  finally show ?thesis .
qed

lemma cbrt_lower:
  fixes u x :: real
  assumes "0 \<le> u" "u ^ 3 \<le> x"
  shows "u \<le> root 3 x"
proof -
  have "root 3 (u ^ 3) \<le> root 3 x" using assms(2) by (simp only: real_root_le_iff [of 3] zero_less_numeral)
  then show ?thesis using assms(1) by (simp add: real_root_power_cancel)
qed

lemma cbrt_upper:
  fixes u x :: real
  assumes "0 \<le> u" "x \<le> u ^ 3"
  shows "root 3 x \<le> u"
proof -
  have "root 3 x \<le> root 3 (u ^ 3)" using assms(2) by (simp only: real_root_le_iff [of 3] zero_less_numeral)
  then show ?thesis using assms(1) by (simp add: real_root_power_cancel)
qed

lemma OKLAB_WHITE_nonneg: "0 \<le> OKLAB_WHITE"
proof -
  have a: "0.9 \<le> root 3 WHITE_l" using WHITE_LMS_bounds(1) by (intro cbrt_lower) (simp_all add: power3_eq_cube)
  have b: "0 \<le> root 3 WHITE_m" using WHITE_LMS_bounds(2) by simp
  have c: "root 3 WHITE_s \<le> 2" using WHITE_LMS_bounds(4) by (intro cbrt_upper) (simp_all add: power3_eq_cube)
  define p q r where "p = root 3 WHITE_l" and "q = root 3 WHITE_m" and "r = root 3 WHITE_s"
  have "0.9 \<le> p" "0 \<le> q" "r \<le> 2" using a b c by (simp_all only: p_def q_def r_def)
  then have "0 \<le> 0.2104542553 * p + 0.793617785 * q + - 0.0040720468 * r" by simp
  then show ?thesis by (simp only: OKLAB_WHITE_def p_def q_def r_def)
qed

lemma yToOklabLightness_mono:
  assumes "0 \<le> y1" "y1 \<le> y2"
  shows "yToOklabLightness y1 \<le> yToOklabLightness y2"
proof -
  have "root 3 y1 \<le> root 3 y2" using assms(2) by simp
  then have "OKLAB_WHITE * root 3 y1 \<le> OKLAB_WHITE * root 3 y2"
    using OKLAB_WHITE_nonneg by (rule mult_left_mono)
  then show ?thesis using assms by (simp add: yToOklabLightness_form)
qed

lemma roundedLightness_mono:
  assumes "x \<le> y"
  shows "roundedLightness x \<le> roundedLightness y"
proof -
  have "x * 100 + 1 / 2 \<le> y * 100 + 1 / 2" using assms by simp
  then have "\<lfloor>x * 100 + 1 / 2\<rfloor> \<le> \<lfloor>y * 100 + 1 / 2\<rfloor>" by (rule floor_mono)
  then show ?thesis
    by (simp add: roundedLightness_def Math_round_def LIGHTNESS_PRECISION_def divide_right_mono)
qed

lemma WHITE_LMS_tight:
  "0.9999 ^ 3 \<le> WHITE_l" "WHITE_l \<le> 0.999964 ^ 3"
  "1 \<le> WHITE_m" "WHITE_m \<le> 1.000009 ^ 3"
  "1.0001 ^ 3 \<le> WHITE_s" "WHITE_s \<le> 1.001 ^ 3"
  by (simp_all add: WHITE_l_def WHITE_m_def WHITE_s_def D65_X_FACTOR_def D65_Z_FACTOR_def power3_eq_cube)

lemma OKLAB_WHITE_bounds: "0.9999 \<le> OKLAB_WHITE" "OKLAB_WHITE \<le> 0.9999995"
proof -
  define p q r where "p = root 3 WHITE_l" and "q = root 3 WHITE_m" and "r = root 3 WHITE_s"
  have pl: "0.9999 \<le> p" unfolding p_def using WHITE_LMS_tight(1) by (intro cbrt_lower) simp_all
  have pu: "p \<le> 0.999964" unfolding p_def using WHITE_LMS_tight(2) by (intro cbrt_upper) simp_all
  have ql: "1 \<le> q" unfolding q_def using WHITE_LMS_tight(3) by (intro cbrt_lower) simp_all
  have qu: "q \<le> 1.000009" unfolding q_def using WHITE_LMS_tight(4) by (intro cbrt_upper) simp_all
  have rl: "1.0001 \<le> r" unfolding r_def using WHITE_LMS_tight(5) by (intro cbrt_lower) simp_all
  have ru: "r \<le> 1.001" unfolding r_def using WHITE_LMS_tight(6) by (intro cbrt_upper) simp_all
  have "0.9999 \<le> 0.2104542553 * p + 0.793617785 * q + - 0.0040720468 * r"
    using pl ql ru by simp
  then show "0.9999 \<le> OKLAB_WHITE" by (simp only: OKLAB_WHITE_def p_def q_def r_def)
  have "0.2104542553 * p + 0.793617785 * q + - 0.0040720468 * r \<le> 0.9999995"
    using pu qu rl by simp
  then show "OKLAB_WHITE \<le> 0.9999995" by (simp only: OKLAB_WHITE_def p_def q_def r_def)
qed

lemma toe_lower: "0.995 \<le> toe 0.9999"
proof -
  define u :: real where "u = TOE_K3 * 0.9999 - TOE_K1"
  define R :: real where "R = u * u + 4 * TOE_K2 * TOE_K3 * 0.9999"
  have "(2 * 0.995 - u)\<^sup>2 \<le> R"
    by (simp add: R_def u_def TOE_K1_def TOE_K2_def TOE_K3_def power2_eq_square)
  then have "sqrt ((2 * 0.995 - u)\<^sup>2) \<le> sqrt R" by (rule real_sqrt_le_mono)
  then have "2 * 0.995 - u \<le> sqrt R" by simp
  then have "0.995 \<le> 0.5 * (u + sqrt R)" by simp
  then show ?thesis by (simp only: toe_def Let_def u_def R_def)
qed

lemma toe_upper: "toe 0.9999995 < 1"
proof -
  define u :: real where "u = TOE_K3 * 0.9999995 - TOE_K1"
  define R :: real where "R = u * u + 4 * TOE_K2 * TOE_K3 * 0.9999995"
  have pos: "0 \<le> 2 - u" by (simp add: u_def TOE_K1_def TOE_K3_def)
  have "R < (2 - u)\<^sup>2"
    by (simp add: R_def u_def TOE_K1_def TOE_K2_def TOE_K3_def power2_eq_square)
  then have "sqrt R < sqrt ((2 - u)\<^sup>2)" by (rule real_sqrt_less_mono)
  then have "sqrt R < 2 - u" using pos by simp
  then have "0.5 * (u + sqrt R) < 1" by simp
  then show ?thesis by (simp only: toe_def Let_def u_def R_def)
qed

lemma computeLightness_valid:
  assumes "0 \<le> step" "step \<le> 1000"
  shows "computeLightness step =
    Inr (yToOkhslLightness (max 0 (min 1 (1.05 / scaleToContrast (real_of_int step) - 0.05))))"
proof -
  have "1 \<le> scaleToContrast (real_of_int step) \<and> scaleToContrast (real_of_int step) \<le> 21"
    using assms by (intro scaleToContrast_range) simp_all
  then show ?thesis
    by (simp add: computeLightness_def Let_def reverseWCAGContrast_valid)
qed

lemma computeLightness_below_one:
  assumes "0 \<le> step" "step \<le> 1000" "computeLightness step = Inr l"
  shows "l < 1"
proof -
  define y where "y = max 0 (min 1 (1.05 / scaleToContrast (real_of_int step) - 0.05))"
  have y: "0 \<le> y" "y \<le> 1" by (simp_all add: y_def)
  have l: "l = toe (yToOklabLightness y)"
    using assms computeLightness_valid [of step] by (simp add: y_def yToOkhslLightness_def)
  have "yToOklabLightness y \<le> yToOklabLightness 1" using y by (intro yToOklabLightness_mono)
  also have "yToOklabLightness 1 = OKLAB_WHITE" by (simp add: yToOklabLightness_form)
  also have "OKLAB_WHITE \<le> 0.9999995" by (rule OKLAB_WHITE_bounds)
  finally have "toe (yToOklabLightness y) \<le> toe 0.9999995" by (rule toe_mono)
  then show ?thesis using toe_upper l by simp
qed

lemma computeLightness_step0:
  "computeLightness 0 = Inr (toe (yToOklabLightness 1))"
  "0.995 \<le> toe (yToOklabLightness 1)"
  "toe (yToOklabLightness 1) < 1"
proof -
  have c: "scaleToContrast 0 = 1" by (simp add: scaleToContrast_def)
  show v: "computeLightness 0 = Inr (toe (yToOklabLightness 1))"
    using computeLightness_valid [of 0] by (simp add: c yToOkhslLightness_def)
  have w: "yToOklabLightness 1 = OKLAB_WHITE" by (simp add: yToOklabLightness_form)
  have "toe 0.9999 \<le> toe OKLAB_WHITE" using OKLAB_WHITE_bounds(1) by (rule toe_mono)
  then show "0.995 \<le> toe (yToOklabLightness 1)" unfolding w using toe_lower by linarith
  show "toe (yToOklabLightness 1) < 1" using computeLightness_below_one [of 0] v by simp
qed

lemma roundedLightness_near_one:
  assumes "0.995 \<le> l" "l < 1.005"
  shows "roundedLightness l = 1"
proof -
  have "100 \<le> l * 100 + 1 / 2" "l * 100 + 1 / 2 < 101" using assms by simp_all
  then have "\<lfloor>l * 100 + 1 / 2\<rfloor> = 100" by linarith
  then show ?thesis by (simp add: roundedLightness_def Math_round_def LIGHTNESS_PRECISION_def)
qed

lemma loop_result:
  assumes "0 \<le> step"
  shows "computeAllLightnessValues_loop step lv =
    Inr (\<lambda>k. if step \<le> k \<and> k \<le> 1000 then Some (roundedLightness (projr (computeLightness k))) else lv k)"
  using assms
proof (induction step lv rule: computeAllLightnessValues_loop.induct)
  case (1 step lv)
  show ?case
  proof (cases "step \<le> 1000")
    case False
    then show ?thesis
      by (subst computeAllLightnessValues_loop.simps) (auto simp: SCALE_MAX_def fun_eq_iff)
  next
    case True
    obtain l where l: "computeLightness step = Inr l"
      using computeLightness_valid [of step] True "1.prems" by simp
    have "computeAllLightnessValues_loop step lv =
      computeAllLightnessValues_loop (step + 1) (lv(step \<mapsto> roundedLightness l))"
      using True l by (subst computeAllLightnessValues_loop.simps) (simp add: SCALE_MAX_def)
    also have "\<dots> = Inr (\<lambda>k. if step + 1 \<le> k \<and> k \<le> 1000
        then Some (roundedLightness (projr (computeLightness k)))
        else (lv(step \<mapsto> roundedLightness l)) k)"
      by (rule "1.IH") (use True l "1.prems" in \<open>simp_all add: SCALE_MAX_def\<close>)
    also have "\<dots> = Inr (\<lambda>k. if step \<le> k \<and> k \<le> 1000
        then Some (roundedLightness (projr (computeLightness k))) else lv k)"
      using True l by (auto simp: fun_eq_iff)
    finally show ?thesis .
  qed
qed

lemma computeAllLightnessValues_result:
  "computeAllLightnessValues =
    Inr (\<lambda>k. if 0 \<le> k \<and> k \<le> 1000 then Some (roundedLightness (projr (computeLightness k))) else None)"
  unfolding computeAllLightnessValues_def using loop_result [of 0 Map.empty] by simp

lemma computeLightness_antimono:
  assumes "0 \<le> s1" "s1 \<le> s2" "s2 \<le> 1000"
  shows "projr (computeLightness s2) \<le> projr (computeLightness s1)"
proof -
  let ?c1 = "scaleToContrast (real_of_int s1)" and ?c2 = "scaleToContrast (real_of_int s2)"
  have c1: "1 \<le> ?c1" using assms by (intro scaleToContrast_range [THEN conjunct1]) simp_all
  have c12: "?c1 \<le> ?c2" using assms by (intro scaleToContrast_mono) simp
  have y: "max 0 (min 1 (1.05 / ?c2 - 0.05)) \<le> max 0 (min 1 (1.05 / ?c1 - 0.05))"
    using c1 c12 by (rule target_antimono)
  have "yToOklabLightness (max 0 (min 1 (1.05 / ?c2 - 0.05)))
      \<le> yToOklabLightness (max 0 (min 1 (1.05 / ?c1 - 0.05)))"
    using y by (intro yToOklabLightness_mono) simp_all
  then have "toe (yToOklabLightness (max 0 (min 1 (1.05 / ?c2 - 0.05))))
      \<le> toe (yToOklabLightness (max 0 (min 1 (1.05 / ?c1 - 0.05))))"
    by (rule toe_mono)
  then show ?thesis using assms by (simp add: computeLightness_valid yToOkhslLightness_def)
qed

section \<open>The lightness table: the claims\<close>

text \<open>
  C6. For every step \<open>s\<close> of \<open>0..1000\<close> the contrast \<open>exp (ln 21 * s / 1000)\<close> lies in \<open>[1, 21]\<close>,
  and the reference luminance is \<open>1\<close>, so neither \<open>throw\<close> of \<open>reverseWCAGContrast\<close> is reached:
  the inversion and \<open>computeLightness\<close> return a value at every step, and the construction of
  the whole table returns a table.
\<close>

theorem table_construction_never_throws:
  "(\<forall>s::int. 0 \<le> s \<and> s \<le> 1000 \<longrightarrow>
      1 \<le> scaleToContrast (real_of_int s) \<and> scaleToContrast (real_of_int s) \<le> 21
      \<and> (\<exists>y. reverseWCAGContrast (scaleToContrast (real_of_int s)) 1 = Inr y)
      \<and> (\<exists>l. computeLightness s = Inr l))
   \<and> (\<exists>t. computeAllLightnessValues = Inr t)"
proof (intro conjI allI impI)
  fix s :: int
  assume h: "0 \<le> s \<and> s \<le> 1000"
  then have r: "1 \<le> scaleToContrast (real_of_int s) \<and> scaleToContrast (real_of_int s) \<le> 21"
    by (intro scaleToContrast_range) simp_all
  from r show "1 \<le> scaleToContrast (real_of_int s)" ..
  from r show "scaleToContrast (real_of_int s) \<le> 21" ..
  from r show "\<exists>y. reverseWCAGContrast (scaleToContrast (real_of_int s)) 1 = Inr y"
    by (simp add: reverseWCAGContrast_valid)
  from h show "\<exists>l. computeLightness s = Inr l"
    by (simp add: computeLightness_valid)
next
  show "\<exists>t. computeAllLightnessValues = Inr t"
    by (simp add: computeAllLightnessValues_result)
qed

theorem table_construction_never_throws_witness:
  "scaleToContrast 1000 = 21 \<and> reverseWCAGContrast (scaleToContrast 1000) 1 = Inr 0
   \<and> (\<exists>l. computeLightness 1000 = Inr l)"
proof -
  have c: "scaleToContrast 1000 = 21" by (simp add: scaleToContrast_def table_config_defs)
  have r: "reverseWCAGContrast 21 1 = Inr 0" by (simp add: reverseWCAGContrast_def table_config_defs)
  have "\<exists>l. computeLightness 1000 = Inr l"
    using table_construction_never_throws by simp
  with c r show ?thesis by simp
qed

text \<open>
  C3. The table is non-increasing in the step: the table builder returns a table, defined at
  every step of \<open>0..1000\<close>, and for steps \<open>s1 < s2\<close> of that range the entry at \<open>s1\<close> is at least
  the entry at \<open>s2\<close>.
\<close>

theorem lightness_table_monotone:
  "\<exists>t. computeAllLightnessValues = Inr t
     \<and> (\<forall>s1 s2. 0 \<le> s1 \<and> s1 < s2 \<and> s2 \<le> 1000 \<longrightarrow>
          (\<exists>l1 l2. t s1 = Some l1 \<and> t s2 = Some l2 \<and> l1 \<ge> l2))"
proof -
  let ?t = "\<lambda>k::int. if 0 \<le> k \<and> k \<le> 1000
      then Some (roundedLightness (projr (computeLightness k))) else None"
  have "\<exists>l1 l2. ?t s1 = Some l1 \<and> ?t s2 = Some l2 \<and> l1 \<ge> l2"
    if h: "0 \<le> s1 \<and> s1 < s2 \<and> s2 \<le> 1000" for s1 s2
  proof -
    have "projr (computeLightness s2) \<le> projr (computeLightness s1)"
      using h by (intro computeLightness_antimono) simp_all
    then have "roundedLightness (projr (computeLightness s2)) \<le> roundedLightness (projr (computeLightness s1))"
      by (rule roundedLightness_mono)
    then show ?thesis using h by simp
  qed
  then show ?thesis using computeAllLightnessValues_result by blast
qed

theorem lightness_table_monotone_witness:
  "\<exists>t l1 l2. computeAllLightnessValues = Inr t \<and> t 0 = Some l1 \<and> t 1000 = Some l2 \<and> l1 \<ge> l2"
proof -
  obtain t where t: "computeAllLightnessValues = Inr t"
    and m: "\<forall>s1 s2. 0 \<le> s1 \<and> s1 < s2 \<and> s2 \<le> 1000 \<longrightarrow>
          (\<exists>l1 l2. t s1 = Some l1 \<and> t s2 = Some l2 \<and> l1 \<ge> l2)"
    using lightness_table_monotone by blast
  have "(0::int) \<le> 0 \<and> (0::int) < 1000 \<and> (1000::int) \<le> 1000" by simp
  with m have "\<exists>l1 l2. t 0 = Some l1 \<and> t 1000 = Some l2 \<and> l1 \<ge> l2" by blast
  with t show ?thesis by blast
qed

text \<open>
  C2, as stated, fails for the table builder. At step \<open>0\<close> the computed lightness lies in
  \<open>[0.995, 1)\<close> (the Oklab lightness of the D65 white is a little below \<open>1\<close>) and is not rounded
  to \<open>0.99\<close>: the entry of the table at step \<open>0\<close> is \<open>1\<close>. The same holds for the rounding of
  the loop body at the value \<open>0.996\<close>.
\<close>

theorem table_rounding_counterexample:
  "computeLightness 0 = Inr (toe (yToOklabLightness 1))
   \<and> 0.995 \<le> toe (yToOklabLightness 1) \<and> toe (yToOklabLightness 1) < 1
   \<and> roundedLightness (toe (yToOklabLightness 1)) = 1
   \<and> roundedLightness (toe (yToOklabLightness 1)) \<noteq> 0.99
   \<and> \<not> isl computeAllLightnessValues
   \<and> projr computeAllLightnessValues 0 = Some 1
   \<and> roundedLightness 0.996 = 1"
proof -
  note l = computeLightness_step0
  have r: "roundedLightness (toe (yToOklabLightness 1)) = 1"
    using l(2,3) by (intro roundedLightness_near_one) simp_all
  have b: "\<not> isl computeAllLightnessValues" "projr computeAllLightnessValues 0 = Some 1"
    using l(1) r by (simp_all add: computeAllLightnessValues_result)
  have c: "roundedLightness 0.996 = 1" by (intro roundedLightness_near_one) simp_all
  from l r b c show ?thesis by simp
qed

text \<open>
  C2, amended. The table builder rounds each computed lightness to the nearest multiple of
  \<open>0.01\<close>, ties upwards (the result is \<open>n / 100\<close> for the integer \<open>n\<close> with
  \<open>n - 1/2 \<le> 100 * l < n + 1/2\<close>), and has no special case: every value in \<open>[0.995, 1.005)\<close>,
  hence every value in \<open>[0.995, 1)\<close>, is rounded to \<open>1.00\<close>. No clamp at \<open>1.0\<close> takes place; every
  lightness the builder computes for the steps \<open>0..1000\<close> is below \<open>1\<close>, and the entry of the table
  is its rounding. The special case of the claim is that of \<open>roundLightness\<close> in the catalog
  generator: it returns \<open>0.99\<close> on \<open>[0.995, 1)\<close> and \<open>1.00\<close> from \<open>1.0\<close> on, and below \<open>0.995\<close> the
  same rounding as the table builder.
\<close>

theorem table_rounding_plain:
  "(\<forall>l. \<exists>n::int. roundedLightness l = real_of_int n / 100
        \<and> real_of_int n - 1 / 2 \<le> l * 100 \<and> l * 100 < real_of_int n + 1 / 2
        \<and> \<bar>roundedLightness l - l\<bar> \<le> 0.005)
   \<and> (\<forall>l. 0.995 \<le> l \<and> l < 1.005 \<longrightarrow> roundedLightness l = 1)
   \<and> (\<exists>t. computeAllLightnessValues = Inr t
        \<and> (\<forall>s. 0 \<le> s \<and> s \<le> 1000 \<longrightarrow>
             (\<exists>l. computeLightness s = Inr l \<and> l < 1 \<and> t s = Some (roundedLightness l))))
   \<and> (\<forall>l. (0.995 \<le> l \<and> l < 1 \<longrightarrow> roundLightness l = 0.99)
          \<and> (1 \<le> l \<longrightarrow> roundLightness l = 1)
          \<and> (l < 0.995 \<longrightarrow> roundLightness l = roundedLightness l))"
proof (intro conjI allI impI)
  fix l :: real
  define n where "n = \<lfloor>l * 100 + 1 / 2\<rfloor>"
  have r: "roundedLightness l = real_of_int n / 100"
    by (simp add: roundedLightness_def Math_round_def LIGHTNESS_PRECISION_def n_def)
  have lo: "real_of_int n - 1 / 2 \<le> l * 100" and hi: "l * 100 < real_of_int n + 1 / 2"
    unfolding n_def by linarith+
  have "\<bar>real_of_int n / 100 - l\<bar> \<le> 0.005" using lo hi by (simp add: abs_if split: if_splits)
  then have ab: "\<bar>roundedLightness l - l\<bar> \<le> 0.005" by (simp only: r)
  from r lo hi ab
  show "\<exists>n::int. roundedLightness l = real_of_int n / 100
        \<and> real_of_int n - 1 / 2 \<le> l * 100 \<and> l * 100 < real_of_int n + 1 / 2
        \<and> \<bar>roundedLightness l - l\<bar> \<le> 0.005"
    by (intro exI [of _ n] conjI)
next
  fix l :: real
  assume "0.995 \<le> l \<and> l < 1.005"
  then show "roundedLightness l = 1" by (intro roundedLightness_near_one) simp_all
next
  let ?t = "\<lambda>k::int. if 0 \<le> k \<and> k \<le> 1000
      then Some (roundedLightness (projr (computeLightness k))) else None"
  have "\<exists>l. computeLightness s = Inr l \<and> l < 1 \<and> ?t s = Some (roundedLightness l)"
    if h: "0 \<le> s \<and> s \<le> 1000" for s
  proof -
    obtain l where l: "computeLightness s = Inr l" using h by (simp add: computeLightness_valid)
    then have "l < 1" using h computeLightness_below_one [of s l] by simp
    then show ?thesis using l h by simp
  qed
  then show "\<exists>t. computeAllLightnessValues = Inr t
        \<and> (\<forall>s. 0 \<le> s \<and> s \<le> 1000 \<longrightarrow>
             (\<exists>l. computeLightness s = Inr l \<and> l < 1 \<and> t s = Some (roundedLightness l)))"
    using computeAllLightnessValues_result by blast
next
  fix l :: real
  assume "0.995 \<le> l \<and> l < 1"
  then show "roundLightness l = 0.99" by (simp add: roundLightness_def catalog_config_defs)
next
  fix l :: real
  assume "1 \<le> l"
  then show "roundLightness l = 1" by (simp add: roundLightness_def catalog_config_defs)
next
  fix l :: real
  assume "l < 0.995"
  then show "roundLightness l = roundedLightness l"
    by (simp add: roundLightness_def roundedLightness_def catalog_config_defs)
qed

theorem table_rounding_plain_witness:
  "roundedLightness 0.9975 = 1 \<and> roundLightness 0.9975 = 0.99
   \<and> roundedLightness 0.985 = 0.99
   \<and> roundLightness 1.2 = 1
   \<and> roundLightness 0.5 = roundedLightness 0.5
   \<and> (\<exists>t l. computeAllLightnessValues = Inr t \<and> computeLightness 0 = Inr l \<and> l < 1
         \<and> t 0 = Some (roundedLightness l))"
proof -
  note T = table_rounding_plain
  have a: "roundedLightness 0.9975 = 1"
    using T [THEN conjunct2, THEN conjunct1, THEN spec, of "0.9975"] by simp
  have R: "(0.995 \<le> l \<and> l < 1 \<longrightarrow> roundLightness l = 0.99)
          \<and> (1 \<le> l \<longrightarrow> roundLightness l = 1)
          \<and> (l < 0.995 \<longrightarrow> roundLightness l = roundedLightness l)" for l
    using T by blast
  have b: "roundLightness 0.9975 = 0.99" using R [of "0.9975"] by simp
  have c: "roundLightness 1.2 = 1" using R [of "1.2"] by simp
  have d: "roundLightness 0.5 = roundedLightness 0.5" using R [of "0.5"] by simp
  obtain n :: int where n: "roundedLightness 0.985 = real_of_int n / 100"
    "real_of_int n - 1 / 2 \<le> 0.985 * 100" "0.985 * 100 < real_of_int n + 1 / 2"
    using T [THEN conjunct1, THEN spec, of "0.985"] by blast
  have "real_of_int n \<le> 99" "98 < real_of_int n" using n(2,3) by simp_all
  then have "n = 99" by linarith
  then have e: "roundedLightness 0.985 = 0.99" using n(1) by simp
  obtain t where t: "computeAllLightnessValues = Inr t"
    and m: "\<forall>s. 0 \<le> s \<and> s \<le> 1000 \<longrightarrow>
             (\<exists>l. computeLightness s = Inr l \<and> l < 1 \<and> t s = Some (roundedLightness l))"
    using T by blast
  have "(0::int) \<le> 0 \<and> (0::int) \<le> 1000" by simp
  with m have "\<exists>l. computeLightness 0 = Inr l \<and> l < 1 \<and> t 0 = Some (roundedLightness l)" by blast
  with a b c d e t show ?thesis by blast
qed
section \<open>The canonical pair key: number to text, separators, order\<close>

lemma digitChar_inj:
  assumes "d < 10" "e < 10" "digitChar d = digitChar e"
  shows "d = e"
proof -
  have "distinct ''0123456789''" by simp
  moreover have "d < length ''0123456789''" "e < length ''0123456789''" using assms by simp_all
  ultimately show ?thesis using assms(3) unfolding digitChar_def
    by (simp only: nth_eq_iff_index_eq)
qed

lemma digitChar_in_digits:
  assumes "d < 10"
  shows "digitChar d \<in> set ''0123456789''"
proof -
  have "d < length ''0123456789''" using assms by simp
  then show ?thesis unfolding digitChar_def by (rule nth_mem)
qed

lemma natToString_digits: "set (natToString n) \<subseteq> set ''0123456789''"
proof (induction n rule: natToString.induct)
  case (1 n)
  show ?case
  proof (cases "n < 10")
    case True
    then show ?thesis
      using digitChar_in_digits [of n] by (subst natToString.simps) simp
  next
    case False
    have "n mod 10 < 10" by simp
    then have "digitChar (n mod 10) \<in> set ''0123456789''" by (rule digitChar_in_digits)
    then show ?thesis
      using False "1.IH" by (subst natToString.simps) simp
  qed
qed

lemma natToString_nonempty: "natToString n \<noteq> []"
  by (subst natToString.simps) simp

lemma natToString_inj:
  "natToString n = natToString m \<Longrightarrow> n = m"
proof (induction n arbitrary: m rule: natToString.induct)
  case (1 n)
  show ?case
  proof (cases "n < 10")
    case n: True
    show ?thesis
    proof (cases "m < 10")
      case True
      then have "digitChar n = digitChar m"
        using "1.prems" n by (simp add: natToString.simps [of n] natToString.simps [of m])
      then show ?thesis using n True by (intro digitChar_inj)
    next
      case False
      then have "[digitChar n] = natToString (m div 10) @ [digitChar (m mod 10)]"
        using "1.prems" n by (simp add: natToString.simps [of n] natToString.simps [of m])
      then show ?thesis using natToString_nonempty [of "m div 10"] by simp
    qed
  next
    case n: False
    show ?thesis
    proof (cases "m < 10")
      case True
      then have "natToString (n div 10) @ [digitChar (n mod 10)] = [digitChar m]"
        using "1.prems" n by (simp add: natToString.simps [of n] natToString.simps [of m])
      then show ?thesis using natToString_nonempty [of "n div 10"] by simp
    next
      case False
      then have "natToString (n div 10) @ [digitChar (n mod 10)]
          = natToString (m div 10) @ [digitChar (m mod 10)]"
        using "1.prems" n by (simp add: natToString.simps [of n] natToString.simps [of m])
      then have a: "natToString (n div 10) = natToString (m div 10)"
        and b: "digitChar (n mod 10) = digitChar (m mod 10)" by simp_all
      from a have q: "n div 10 = m div 10" using n by (intro "1.IH") simp_all
      have "n mod 10 < 10" "m mod 10 < 10" by simp_all
      then have r: "n mod 10 = m mod 10" using b by (intro digitChar_inj)
      have "n = 10 * (n div 10) + n mod 10" by simp
      also have "\<dots> = 10 * (m div 10) + m mod 10" by (simp only: q r)
      also have "\<dots> = m" by simp
      finally show ?thesis .
    qed
  qed
qed

lemma numberToString_no_separator:
  "CHR '','' \<notin> set (numberToString i)" "CHR ''|'' \<notin> set (numberToString i)"
proof -
  have a: "CHR '','' \<notin> set (natToString n)" "CHR ''|'' \<notin> set (natToString n)" for n
  proof -
    have "CHR '','' \<notin> set ''0123456789''" "CHR ''|'' \<notin> set ''0123456789''" by simp_all
    then show "CHR '','' \<notin> set (natToString n)" "CHR ''|'' \<notin> set (natToString n)"
      using natToString_digits [of n] by blast+
  qed
  show "CHR '','' \<notin> set (numberToString i)" "CHR ''|'' \<notin> set (numberToString i)"
    using a by (simp_all add: numberToString_def)
qed

lemma numberToString_inj:
  assumes "numberToString i = numberToString j"
  shows "i = j"
proof -
  have nominus: "hd (natToString n) \<noteq> CHR ''-''" for n
  proof -
    have "hd (natToString n) \<in> set (natToString n)" using natToString_nonempty by simp
    then have "hd (natToString n) \<in> set ''0123456789''" using natToString_digits by blast
    then show ?thesis by auto
  qed
  show ?thesis
  proof (cases "i < 0")
    case i: True
    show ?thesis
    proof (cases "j < 0")
      case True
      then have "natToString (nat (- i)) = natToString (nat (- j))"
        using assms i by (simp add: numberToString_def)
      then have "nat (- i) = nat (- j)" by (rule natToString_inj)
      then show ?thesis using i True by simp
    next
      case False
      then have "CHR ''-'' # natToString (nat (- i)) = natToString (nat j)"
        using assms i by (simp add: numberToString_def)
      then have "hd (natToString (nat j)) = CHR ''-''" by (metis list.sel(1))
      then show ?thesis using nominus by blast
    qed
  next
    case i: False
    show ?thesis
    proof (cases "j < 0")
      case True
      then have "natToString (nat i) = CHR ''-'' # natToString (nat (- j))"
        using assms i by (simp add: numberToString_def)
      then have "hd (natToString (nat i)) = CHR ''-''" by (metis list.sel(1))
      then show ?thesis using nominus by blast
    next
      case False
      then have "natToString (nat i) = natToString (nat j)"
        using assms i by (simp add: numberToString_def)
      then have "nat i = nat j" by (rule natToString_inj)
      then show ?thesis using i False by simp
    qed
  qed
qed

lemma split_at_separator:
  assumes "c \<notin> set xs" "c \<notin> set ys" "xs @ c # us = ys @ c # vs"
  shows "xs = ys \<and> us = vs"
  using assms
proof (induction xs arbitrary: ys)
  case Nil
  then show ?case by (cases ys) auto
next
  case (Cons x xs)
  then show ?case by (cases ys) auto
qed

lemma createColorPairKey_form:
  "createColorPairKey color1 color2 =
     (if rgbToNumericValue color1 \<le> rgbToNumericValue color2
      then rgbString color1 @ CHR ''|'' # rgbString color2
      else rgbString color2 @ CHR ''|'' # rgbString color1)"
  by (simp add: createColorPairKey_def rgbString_def Let_def)

lemma rgbString_no_pipe: "CHR ''|'' \<notin> set (rgbString color)"
  by (simp add: rgbString_def numberToString_no_separator)

lemma rgbString_inj:
  assumes "rgbString c = rgbString d"
  shows "rgb c = rgb d"
proof -
  have e: "numberToString (Color_r c) @ CHR '','' # (numberToString (Color_g c) @ CHR '','' # numberToString (Color_b c))
      = numberToString (Color_r d) @ CHR '','' # (numberToString (Color_g d) @ CHR '','' # numberToString (Color_b d))"
    using assms by (simp add: rgbString_def)
  have r: "numberToString (Color_r c) = numberToString (Color_r d)"
    and rest: "numberToString (Color_g c) @ CHR '','' # numberToString (Color_b c)
      = numberToString (Color_g d) @ CHR '','' # numberToString (Color_b d)"
    using split_at_separator [OF numberToString_no_separator(1) numberToString_no_separator(1) e]
    by simp_all
  have g: "numberToString (Color_g c) = numberToString (Color_g d)"
    and b: "numberToString (Color_b c) = numberToString (Color_b d)"
    using split_at_separator [OF numberToString_no_separator(1) numberToString_no_separator(1) rest]
    by simp_all
  from r g b have "Color_r c = Color_r d" "Color_g c = Color_g d" "Color_b c = Color_b d"
    by (blast intro: numberToString_inj)+
  then show ?thesis by (simp add: rgb_def)
qed

lemma rgbString_cong:
  assumes "rgb c = rgb d"
  shows "rgbString c = rgbString d"
  using assms by (simp add: rgb_def rgbString_def)

lemma rgbToNumericValue_cong:
  assumes "rgb c = rgb d"
  shows "rgbToNumericValue c = rgbToNumericValue d"
  using assms by (simp add: rgb_def rgbToNumericValue_def)

lemma rgbToNumericValue_decode:
  assumes "channels_in_range c"
  shows "Color_b c = rgbToNumericValue c mod 256"
    and "Color_g c = rgbToNumericValue c div 256 mod 256"
    and "Color_r c = rgbToNumericValue c div 256 div 256"
proof -
  define k where "k = 256 * Color_r c + Color_g c"
  have v: "rgbToNumericValue c = 256 * k + Color_b c"
    by (simp add: k_def rgbToNumericValue_def RGB_MULTIPLIERS_RED_def
        RGB_MULTIPLIERS_GREEN_def RGB_MULTIPLIERS_BLUE_def)
  have b: "0 \<le> Color_b c" "Color_b c < 256" and g: "0 \<le> Color_g c" "Color_g c < 256"
    using assms by (simp_all add: channels_in_range_def)
  show "Color_b c = rgbToNumericValue c mod 256" using b by (simp add: v)
  have d: "rgbToNumericValue c div 256 = k" using b by (simp add: v)
  show "Color_g c = rgbToNumericValue c div 256 mod 256" using g by (simp add: d k_def)
  show "Color_r c = rgbToNumericValue c div 256 div 256" using g by (simp add: d k_def)
qed

lemma rgbToNumericValue_inj:
  assumes "channels_in_range c" "channels_in_range d"
    and "rgbToNumericValue c = rgbToNumericValue d"
  shows "rgb c = rgb d"
  using rgbToNumericValue_decode [OF assms(1)] rgbToNumericValue_decode [OF assms(2)] assms(3)
  by (simp add: rgb_def)

lemma createColorPairKey_swap:
  assumes "channels_in_range c" "channels_in_range d"
  shows "createColorPairKey c d = createColorPairKey d c"
proof (cases "rgbToNumericValue c = rgbToNumericValue d")
  case True
  then have "rgb c = rgb d" using assms by (intro rgbToNumericValue_inj)
  then have "rgbString c = rgbString d" by (rule rgbString_cong)
  then show ?thesis using True by (simp add: createColorPairKey_form)
next
  case False
  then show ?thesis by (auto simp: createColorPairKey_form)
qed

lemma createColorPairKey_cong:
  assumes "rgb a = rgb c" "rgb b = rgb d"
  shows "createColorPairKey a b = createColorPairKey c d"
  using assms
  by (simp add: createColorPairKey_form rgbString_cong [OF assms(1)] rgbString_cong [OF assms(2)]
      rgbToNumericValue_cong [OF assms(1)] rgbToNumericValue_cong [OF assms(2)])

lemma createColorPairKey_determines:
  assumes "createColorPairKey a b = createColorPairKey c d"
  shows "{rgb a, rgb b} = {rgb c, rgb d}"
proof -
  have ordered: "\<exists>p q. createColorPairKey x y = rgbString p @ CHR ''|'' # rgbString q
      \<and> {rgb x, rgb y} = {rgb p, rgb q}" for x y
  proof (cases "rgbToNumericValue x \<le> rgbToNumericValue y")
    case True
    then have "createColorPairKey x y = rgbString x @ CHR ''|'' # rgbString y"
      by (simp add: createColorPairKey_form)
    moreover have "{rgb x, rgb y} = {rgb x, rgb y}" by (rule refl)
    ultimately show ?thesis by (intro exI conjI)
  next
    case False
    then have "createColorPairKey x y = rgbString y @ CHR ''|'' # rgbString x"
      by (simp add: createColorPairKey_form)
    moreover have "{rgb x, rgb y} = {rgb y, rgb x}" by (rule insert_commute)
    ultimately show ?thesis by (intro exI conjI)
  qed
  obtain p q where pq: "createColorPairKey a b = rgbString p @ CHR ''|'' # rgbString q"
    and s1: "{rgb a, rgb b} = {rgb p, rgb q}"
    using ordered [of a b] by (elim exE conjE) (rule that)
  obtain p' q' where pq': "createColorPairKey c d = rgbString p' @ CHR ''|'' # rgbString q'"
    and s2: "{rgb c, rgb d} = {rgb p', rgb q'}"
    using ordered [of c d] by (elim exE conjE) (rule that)
  have "rgbString p @ CHR ''|'' # rgbString q = rgbString p' @ CHR ''|'' # rgbString q'"
    unfolding pq [symmetric] pq' [symmetric] by (rule assms)
  then have "rgbString p = rgbString p' \<and> rgbString q = rgbString q'"
    by (rule split_at_separator [OF rgbString_no_pipe rgbString_no_pipe])
  then have e: "rgb p = rgb p'" "rgb q = rgb q'" by (blast intro: rgbString_inj)+
  have "{rgb a, rgb b} = {rgb p, rgb q}" by (rule s1)
  also have "\<dots> = {rgb p', rgb q'}" by (simp only: e)
  also have "\<dots> = {rgb c, rgb d}" by (rule s2 [symmetric])
  finally show ?thesis .
qed

section \<open>The canonical pair key: the claims\<close>

text \<open>
  C7. The canonical pair key is symmetric: for colours \<open>A\<close> and \<open>B\<close> whose channels are integers
  in \<open>[0, 255]\<close>, \<open>createColorPairKey A B\<close> and \<open>createColorPairKey B A\<close> are the same text.
\<close>

theorem createColorPairKey_symmetric:
  assumes "channels_in_range A" "channels_in_range B"
  shows "createColorPairKey A B = createColorPairKey B A"
  using assms by (rule createColorPairKey_swap)


theorem createColorPairKey_symmetric_witness:
  "createColorPairKey
     \<lparr>Color_r = 240, Color_g = 240, Color_b = 240, Color_y = 0.87, Color_rounded_ok_l = 0.95\<rparr>
     \<lparr>Color_r = 10, Color_g = 10, Color_b = 10, Color_y = 0.003, Color_rounded_ok_l = 0.03\<rparr>
   = ''10,10,10|240,240,240''"
proof -
  let ?A = "\<lparr>Color_r = 240, Color_g = 240, Color_b = 240, Color_y = 0.87, Color_rounded_ok_l = 0.95\<rparr>"
  let ?B = "\<lparr>Color_r = 10, Color_g = 10, Color_b = 10, Color_y = 0.003, Color_rounded_ok_l = 0.03\<rparr>"
  have "channels_in_range ?A" "channels_in_range ?B" by (simp_all add: channels_in_range_def)
  then have "createColorPairKey ?A ?B = createColorPairKey ?B ?A"
    by (rule createColorPairKey_symmetric)
  also have "\<dots> = ''10,10,10|240,240,240''"
    by (simp add: createColorPairKey_def rgbToNumericValue_def RGB_MULTIPLIERS_RED_def
        RGB_MULTIPLIERS_GREEN_def RGB_MULTIPLIERS_BLUE_def numberToString_def
        natToString.simps digitChar_def)
  finally show ?thesis .
qed


text \<open>
  C9. The canonical pair key is injective on unordered pairs: for colours with channels in
  \<open>[0, 255]\<close>, two pairs have the same key exactly when their unordered pairs of \<open>(r, g, b)\<close>
  triples are equal; and the encoding \<open>r * 65536 + g * 256 + b\<close> takes the same value on two such
  colours exactly when their triples are equal.
\<close>

theorem createColorPairKey_injective:
  assumes "channels_in_range A" "channels_in_range B" "channels_in_range C" "channels_in_range D"
  shows "(createColorPairKey A B = createColorPairKey C D \<longleftrightarrow> {rgb A, rgb B} = {rgb C, rgb D})
    \<and> (rgbToNumericValue A = rgbToNumericValue B \<longleftrightarrow> rgb A = rgb B)"
proof (intro conjI iffI)
  assume "createColorPairKey A B = createColorPairKey C D"
  then show "{rgb A, rgb B} = {rgb C, rgb D}" by (rule createColorPairKey_determines)
next
  assume "{rgb A, rgb B} = {rgb C, rgb D}"
  then have "rgb A = rgb C \<and> rgb B = rgb D \<or> rgb A = rgb D \<and> rgb B = rgb C"
    by (simp only: doubleton_eq_iff)
  then show "createColorPairKey A B = createColorPairKey C D"
  proof (elim disjE conjE)
    assume "rgb A = rgb C" "rgb B = rgb D"
    then show ?thesis by (rule createColorPairKey_cong)
  next
    assume "rgb A = rgb D" "rgb B = rgb C"
    then have "createColorPairKey A B = createColorPairKey D C" by (rule createColorPairKey_cong)
    also have "\<dots> = createColorPairKey C D" using assms(4,3) by (rule createColorPairKey_swap)
    finally show ?thesis .
  qed
next
  assume "rgbToNumericValue A = rgbToNumericValue B"
  then show "rgb A = rgb B" using assms(1,2) by (intro rgbToNumericValue_inj)
next
  assume "rgb A = rgb B"
  then show "rgbToNumericValue A = rgbToNumericValue B" by (rule rgbToNumericValue_cong)
qed

theorem createColorPairKey_injective_witness:
  "createColorPairKey
     \<lparr>Color_r = 240, Color_g = 240, Color_b = 240, Color_y = 0.87, Color_rounded_ok_l = 0.95\<rparr>
     \<lparr>Color_r = 10, Color_g = 10, Color_b = 10, Color_y = 0.003, Color_rounded_ok_l = 0.03\<rparr>
   = createColorPairKey
     \<lparr>Color_r = 10, Color_g = 10, Color_b = 10, Color_y = 0, Color_rounded_ok_l = 0\<rparr>
     \<lparr>Color_r = 240, Color_g = 240, Color_b = 240, Color_y = 1, Color_rounded_ok_l = 1\<rparr>
   \<and> createColorPairKey
     \<lparr>Color_r = 240, Color_g = 240, Color_b = 240, Color_y = 0.87, Color_rounded_ok_l = 0.95\<rparr>
     \<lparr>Color_r = 10, Color_g = 10, Color_b = 10, Color_y = 0.003, Color_rounded_ok_l = 0.03\<rparr>
   \<noteq> createColorPairKey
     \<lparr>Color_r = 10, Color_g = 10, Color_b = 10, Color_y = 0, Color_rounded_ok_l = 0\<rparr>
     \<lparr>Color_r = 240, Color_g = 240, Color_b = 241, Color_y = 1, Color_rounded_ok_l = 1\<rparr>"
proof -
  let ?A = "\<lparr>Color_r = 240, Color_g = 240, Color_b = 240, Color_y = 0.87, Color_rounded_ok_l = 0.95\<rparr>"
  let ?B = "\<lparr>Color_r = 10, Color_g = 10, Color_b = 10, Color_y = 0.003, Color_rounded_ok_l = 0.03\<rparr>"
  let ?C = "\<lparr>Color_r = 10, Color_g = 10, Color_b = 10, Color_y = 0, Color_rounded_ok_l = 0\<rparr>"
  let ?D = "\<lparr>Color_r = 240, Color_g = 240, Color_b = 240, Color_y = 1, Color_rounded_ok_l = 1\<rparr>"
  let ?E = "\<lparr>Color_r = 240, Color_g = 240, Color_b = 241, Color_y = 1, Color_rounded_ok_l = 1\<rparr>"
  have r: "channels_in_range ?A" "channels_in_range ?B" "channels_in_range ?C"
    "channels_in_range ?D" "channels_in_range ?E"
    by (simp_all add: channels_in_range_def)
  have eq: "{rgb ?A, rgb ?B} = {rgb ?C, rgb ?D}" by (simp add: rgb_def insert_commute)
  have i1: "createColorPairKey ?A ?B = createColorPairKey ?C ?D \<longleftrightarrow> {rgb ?A, rgb ?B} = {rgb ?C, rgb ?D}"
    using createColorPairKey_injective [OF r(1) r(2) r(3) r(4)] by (rule conjunct1)
  have a: "createColorPairKey ?A ?B = createColorPairKey ?C ?D"
    unfolding i1 by (rule eq)
  have ne: "{rgb ?A, rgb ?B} \<noteq> {rgb ?C, rgb ?E}" by (simp add: rgb_def doubleton_eq_iff)
  have i2: "createColorPairKey ?A ?B = createColorPairKey ?C ?E \<longleftrightarrow> {rgb ?A, rgb ?B} = {rgb ?C, rgb ?E}"
    using createColorPairKey_injective [OF r(1) r(2) r(3) r(5)] by (rule conjunct1)
  have b: "createColorPairKey ?A ?B \<noteq> createColorPairKey ?C ?E"
    unfolding i2 by (rule ne)
  from a b show ?thesis ..
qed
section \<open>The search loop: one iteration, runs, divergence\<close>


lemma getRandomColorWithLightness_undefined:
  "getRandomColorWithLightness random byLightness None calls = (None, calls)"
  by (simp add: getRandomColorWithLightness_def)

lemma getRandomColorWithLightness_no_bucket:
  assumes "byLightness l = None \<or> byLightness l = Some []"
  shows "getRandomColorWithLightness random byLightness (Some l) calls = (None, calls)"
  using assms by (auto simp: getRandomColorWithLightness_def)

lemma iteration_NoColors:
  assumes "fst (fst (sample env w)) = None \<or> snd (fst (sample env w)) = None"
  shows "iteration env w = (w\<lparr>randomCalls := snd (sample env w)\<rparr>, NoColors)"
proof -
  obtain c1 c2 calls where s: "sample env w = ((c1, c2), calls)" by (metis prod.collapse)
  with assms have "c1 = None \<or> c2 = None" by simp
  then show ?thesis
    by (cases c1; cases c2) (simp_all add: iteration_def s)
qed

lemma iteration_AlreadyTested:
  assumes "fst (sample env w) = (Some c1, Some c2)"
    and "BloomFilter_has env (filters w ! testedCombinations (state w)) (createColorPairKey c1 c2)"
  shows "iteration env w =
    (w\<lparr>randomCalls := snd (sample env w)\<rparr>, AlreadyTested (createColorPairKey c1 c2))"
proof -
  obtain calls where s: "sample env w = ((Some c1, Some c2), calls)"
    using assms(1) by (metis prod.collapse)
  show ?thesis using assms(2) by (simp add: iteration_def s Let_def)
qed

lemma iteration_passed:
  assumes "fst (sample env w) = (Some c1, Some c2)"
    and "\<not> BloomFilter_has env (filters w ! testedCombinations (state w)) (createColorPairKey c1 c2)"
    and "\<not> wcagContrast_luminance (Color_y c1) (Color_y c2) < MIN_RATIO"
  shows "iteration env w =
    (\<lparr>state = (state w)\<lparr>testCount := testCount (state w) + 1,
                          totalTestsRun := totalTestsRun (state w) + 1\<rparr>,
      filters = (filters w)[testedCombinations (state w) :=
        BloomFilter_add env (filters w ! testedCombinations (state w)) (createColorPairKey c1 c2)],
      randomCalls = snd (sample env w)\<rparr>,
     Tested (distance (state w)) (testedCombinations (state w)) (createColorPairKey c1 c2)
       (wcagContrast_luminance (Color_y c1) (Color_y c2)))"
proof -
  obtain calls where s: "sample env w = ((Some c1, Some c2), calls)"
    using assms(1) by (metis prod.collapse)
  show ?thesis using assms(2,3) by (simp add: iteration_def s Let_def)
qed

lemma iteration_failed:
  assumes "fst (sample env w) = (Some c1, Some c2)"
    and "\<not> BloomFilter_has env (filters w ! testedCombinations (state w)) (createColorPairKey c1 c2)"
    and "wcagContrast_luminance (Color_y c1) (Color_y c2) < MIN_RATIO"
  shows "iteration env w =
    (\<lparr>state = \<lparr>distance = distance (state w) + 1, testCount = 0,
               totalTestsRun = totalTestsRun (state w) + 1,
               testedCombinations = length (filters w)\<rparr>,
      filters = (filters w)[testedCombinations (state w) :=
        BloomFilter_add env (filters w ! testedCombinations (state w)) (createColorPairKey c1 c2)]
        @ [BloomFilter_create env],
      randomCalls = snd (sample env w)\<rparr>,
     Tested (distance (state w)) (testedCombinations (state w)) (createColorPairKey c1 c2)
       (wcagContrast_luminance (Color_y c1) (Color_y c2)))"
proof -
  obtain calls where s: "sample env w = ((Some c1, Some c2), calls)"
    using assms(1) by (metis prod.collapse)
  show ?thesis using assms(2,3)
    by (simp add: iteration_def s Let_def createBloomFilter_def)
qed

lemma sample_beyond_scale:
  assumes dom: "dom (lightnessValues env) \<subseteq> {0..1000}"
    and rnd: "Math_random env (randomCalls w) \<le> 1"
    and d: "distance (state w) > 1000"
  shows "snd (fst (sample env w)) = None"
proof -
  define u where "u = Math_random env (randomCalls w)"
  define d where "d = distance (state w)"
  define step1 where "step1 = Math_floor (u * real_of_int (MAX_STEP + 1 - d))"
  have neg: "real_of_int (1001 - d) \<le> 0" using assms(3) by (simp add: d_def)
  have "u * real_of_int (1001 - d) \<ge> 1 * real_of_int (1001 - d)"
    using neg rnd unfolding u_def by (rule mult_right_mono_neg [rotated])
  then have "real_of_int (1001 - d) \<le> u * real_of_int (1001 - d)" by simp
  then have "1001 - d \<le> \<lfloor>u * real_of_int (1001 - d)\<rfloor>" by (simp only: le_floor_iff)
  then have "step1 + d \<ge> 1001" by (simp add: step1_def Math_floor_def MAX_STEP_def)
  then have "step1 + d \<notin> dom (lightnessValues env)" using dom by auto
  then have l2: "lightnessValues env (step1 + d) = None" by blast
  show ?thesis
    unfolding sample_def Let_def u_def [symmetric] d_def [symmetric] step1_def [symmetric] l2
    by (simp add: split_def getRandomColorWithLightness_undefined)
qed

lemma iteration_beyond_scale:
  assumes "dom (lightnessValues env) \<subseteq> {0..1000}"
    and "Math_random env (randomCalls w) \<le> 1"
    and "distance (state w) > 1000"
  shows "iteration env w = (w\<lparr>randomCalls := snd (sample env w)\<rparr>, NoColors)"
  using sample_beyond_scale [OF assms] by (intro iteration_NoColors) simp

lemma loop_diverges_beyond_scale:
  assumes dom: "dom (lightnessValues env) \<subseteq> {0..1000}"
    and rnd: "\<forall>i. Math_random env i \<le> 1"
    and d: "distance (state w) > 1000"
    and t: "testCount (state w) < MAX_TESTS"
  shows "runContrastTests_loop env w = None"
proof (rule ccontr)
  assume "runContrastTests_loop env w \<noteq> None"
  then obtain r where r: "runContrastTests_loop env w = Some r" by blast
  have "\<not> (e = env \<and> distance (state v) > 1000 \<and> testCount (state v) < MAX_TESTS)"
    if "runContrastTests_loop e v = Some r'" for e v r'
  proof (rule runContrastTests_loop.raw_induct
      [where P = "\<lambda>e v r'. \<not> (e = env \<and> distance (state v) > 1000 \<and> testCount (state v) < MAX_TESTS)",
        OF _ that])
    fix f :: "'a env \<Rightarrow> 'a world \<Rightarrow> 'a world option" and e v r'
    assume IH: "\<And>e v r'. f e v = Some r' \<Longrightarrow>
        \<not> (e = env \<and> distance (state v) > 1000 \<and> testCount (state v) < MAX_TESTS)"
      and step: "(if testCount (state v) < MAX_TESTS then f e (fst (iteration e v)) else Some v) = Some r'"
    show "\<not> (e = env \<and> distance (state v) > 1000 \<and> testCount (state v) < MAX_TESTS)"
    proof
      assume bad: "e = env \<and> distance (state v) > 1000 \<and> testCount (state v) < MAX_TESTS"
      then have it: "iteration env v = (v\<lparr>randomCalls := snd (sample env v)\<rparr>, NoColors)"
        using dom rnd by (intro iteration_beyond_scale) simp_all
      from bad step have "f env (fst (iteration env v)) = Some r'" by simp
      then have "\<not> (env = env \<and> distance (state (fst (iteration env v))) > 1000
          \<and> testCount (state (fst (iteration env v))) < MAX_TESTS)"
        by (rule IH)
      then show False using bad by (simp add: it)
    qed
  qed
  from this [OF r] d t show False by simp
qed

lemma iteration_cases:
  obtains (nocolors) calls where "iteration env w = (w\<lparr>randomCalls := calls\<rparr>, NoColors)"
  | (seen) calls k where "iteration env w = (w\<lparr>randomCalls := calls\<rparr>, AlreadyTested k)"
      and "BloomFilter_has env (filters w ! testedCombinations (state w)) k"
  | (passed) calls k x where
      "\<not> BloomFilter_has env (filters w ! testedCombinations (state w)) k"
      "iteration env w =
        (\<lparr>state = (state w)\<lparr>testCount := testCount (state w) + 1,
                              totalTestsRun := totalTestsRun (state w) + 1\<rparr>,
          filters = (filters w)[testedCombinations (state w) :=
            BloomFilter_add env (filters w ! testedCombinations (state w)) k],
          randomCalls = calls\<rparr>,
         Tested (distance (state w)) (testedCombinations (state w)) k x)"
  | (failed) calls k x where
      "\<not> BloomFilter_has env (filters w ! testedCombinations (state w)) k"
      "iteration env w =
        (\<lparr>state = \<lparr>distance = distance (state w) + 1, testCount = 0,
                   totalTestsRun = totalTestsRun (state w) + 1,
                   testedCombinations = length (filters w)\<rparr>,
          filters = (filters w)[testedCombinations (state w) :=
            BloomFilter_add env (filters w ! testedCombinations (state w)) k]
            @ [BloomFilter_create env],
          randomCalls = calls\<rparr>,
         Tested (distance (state w)) (testedCombinations (state w)) k x)"
proof -
  obtain o1 o2 calls where s: "sample env w = ((o1, o2), calls)" by (metis prod.collapse)
  show thesis
  proof (cases "o1 = None \<or> o2 = None")
    case True
    then have "iteration env w = (w\<lparr>randomCalls := snd (sample env w)\<rparr>, NoColors)"
      by (intro iteration_NoColors) (simp add: s)
    then show thesis by (rule nocolors)
  next
    case False
    then obtain c1 c2 where c: "fst (sample env w) = (Some c1, Some c2)" by (auto simp: s)
    let ?k = "createColorPairKey c1 c2"
    show thesis
    proof (cases "BloomFilter_has env (filters w ! testedCombinations (state w)) ?k")
      case True
      with c show thesis by (intro seen [of _ ?k]) (simp_all add: iteration_AlreadyTested)
    next
      case nothas: False
      show thesis
      proof (cases "wcagContrast_luminance (Color_y c1) (Color_y c2) < MIN_RATIO")
        case True
        from iteration_failed [OF c nothas True] nothas show thesis by (intro failed [of ?k])
      next
        case False
        from iteration_passed [OF c nothas False] nothas show thesis by (intro passed [of ?k])
      qed
    qed
  qed
qed

lemma iterations_Suc_running:
  assumes "testCount (state w) < MAX_TESTS" "iteration env w = (w', e)"
  shows "iterations (Suc n) env w = (fst (iterations n env w'), e # snd (iterations n env w'))"
  using assms by (simp add: split_def Let_def)

lemma iterations_Suc_finished:
  assumes "\<not> testCount (state w) < MAX_TESTS"
  shows "iterations (Suc n) env w = (w, [])"
  using assms by simp

declare iterations.simps(2) [simp del]

lemma iterations_distinct_general:
  assumes nfn: "no_false_negatives env"
  shows "testedCombinations (state w) < length (filters w) \<Longrightarrow> distinct ks \<Longrightarrow>
    (\<forall>k\<in>set ks. BloomFilter_has env (filters w ! testedCombinations (state w)) k) \<Longrightarrow>
    distinct (ks @ testedKeys (distance (state w)) (snd (iterations n env w)))
    \<and> (\<forall>d. d > distance (state w) \<longrightarrow> distinct (testedKeys d (snd (iterations n env w))))
    \<and> (\<forall>d. d < distance (state w) \<longrightarrow> testedKeys d (snd (iterations n env w)) = [])"
proof (induction n arbitrary: w ks)
  case 0
  then show ?case by simp
next
  case (Suc n)
  let ?ref = "testedCombinations (state w)"
  let ?f = "filters w ! ?ref"
  show ?case
  proof (cases "testCount (state w) < MAX_TESTS")
    case False
    then show ?thesis using Suc.prems by (simp add: iterations_Suc_finished)
  next
    case running: True
    show ?thesis
    proof (cases rule: iteration_cases [of env w])
      case (nocolors calls)
      have "distinct (ks @ testedKeys (distance (state (w\<lparr>randomCalls := calls\<rparr>)))
            (snd (iterations n env (w\<lparr>randomCalls := calls\<rparr>))))
          \<and> (\<forall>d. d > distance (state (w\<lparr>randomCalls := calls\<rparr>)) \<longrightarrow>
                distinct (testedKeys d (snd (iterations n env (w\<lparr>randomCalls := calls\<rparr>)))))
          \<and> (\<forall>d. d < distance (state (w\<lparr>randomCalls := calls\<rparr>)) \<longrightarrow>
                testedKeys d (snd (iterations n env (w\<lparr>randomCalls := calls\<rparr>))) = [])"
        using Suc.prems by (intro Suc.IH) simp_all
      then show ?thesis
        by (simp add: iterations_Suc_running [OF running nocolors])
    next
      case (seen calls k)
      have "distinct (ks @ testedKeys (distance (state (w\<lparr>randomCalls := calls\<rparr>)))
            (snd (iterations n env (w\<lparr>randomCalls := calls\<rparr>))))
          \<and> (\<forall>d. d > distance (state (w\<lparr>randomCalls := calls\<rparr>)) \<longrightarrow>
                distinct (testedKeys d (snd (iterations n env (w\<lparr>randomCalls := calls\<rparr>)))))
          \<and> (\<forall>d. d < distance (state (w\<lparr>randomCalls := calls\<rparr>)) \<longrightarrow>
                testedKeys d (snd (iterations n env (w\<lparr>randomCalls := calls\<rparr>))) = [])"
        using Suc.prems by (intro Suc.IH) simp_all
      then show ?thesis
        by (simp add: iterations_Suc_running [OF running seen(1)])
    next
      case (passed calls k x)
      define w' where "w' = \<lparr>state = (state w)\<lparr>testCount := testCount (state w) + 1,
                              totalTestsRun := totalTestsRun (state w) + 1\<rparr>,
          filters = (filters w)[?ref := BloomFilter_add env ?f k],
          randomCalls = calls\<rparr>"
      have it: "iteration env w = (w', Tested (distance (state w)) ?ref k x)"
        using passed(2) by (simp add: w'_def)
      have knew: "k \<notin> set ks" using passed(1) Suc.prems(3) by blast
      have f': "filters w' ! testedCombinations (state w') = BloomFilter_add env ?f k"
        using Suc.prems(1) by (simp add: w'_def)
      have has': "\<forall>k'\<in>set (ks @ [k]). BloomFilter_has env (filters w' ! testedCombinations (state w')) k'"
        unfolding f' using nfn Suc.prems(3) by (auto simp: no_false_negatives_def)
      have "distinct ((ks @ [k]) @ testedKeys (distance (state w')) (snd (iterations n env w')))
          \<and> (\<forall>d. d > distance (state w') \<longrightarrow> distinct (testedKeys d (snd (iterations n env w'))))
          \<and> (\<forall>d. d < distance (state w') \<longrightarrow> testedKeys d (snd (iterations n env w')) = [])"
        using Suc.prems(1,2) knew has' by (intro Suc.IH) (simp_all add: w'_def)
      moreover have "distance (state w') = distance (state w)" by (simp add: w'_def)
      ultimately show ?thesis
        by (simp add: iterations_Suc_running [OF running it])
    next
      case (failed calls k x)
      define w' where "w' = \<lparr>state = \<lparr>distance = distance (state w) + 1, testCount = 0,
                   totalTestsRun = totalTestsRun (state w) + 1,
                   testedCombinations = length (filters w)\<rparr>,
          filters = (filters w)[?ref := BloomFilter_add env ?f k] @ [BloomFilter_create env],
          randomCalls = calls\<rparr>"
      have it: "iteration env w = (w', Tested (distance (state w)) ?ref k x)"
        using failed(2) by (simp add: w'_def)
      have knew: "k \<notin> set ks" using failed(1) Suc.prems(3) by blast
      have "distinct ([] @ testedKeys (distance (state w')) (snd (iterations n env w')))
          \<and> (\<forall>d. d > distance (state w') \<longrightarrow> distinct (testedKeys d (snd (iterations n env w'))))
          \<and> (\<forall>d. d < distance (state w') \<longrightarrow> testedKeys d (snd (iterations n env w')) = [])"
        by (intro Suc.IH) (simp_all add: w'_def)
      moreover have "distance (state w') = distance (state w) + 1" by (simp add: w'_def)
      ultimately have a: "distinct (testedKeys (distance (state w) + 1) (snd (iterations n env w')))"
        and b: "\<forall>d. d > distance (state w) + 1 \<longrightarrow> distinct (testedKeys d (snd (iterations n env w')))"
        and c: "\<forall>d. d < distance (state w) + 1 \<longrightarrow> testedKeys d (snd (iterations n env w')) = []"
        by simp_all
      have c0: "testedKeys (distance (state w)) (snd (iterations n env w')) = []" using c by simp
      have g1: "distinct (ks @ testedKeys (distance (state w))
          (Tested (distance (state w)) ?ref k x # snd (iterations n env w')))"
        using Suc.prems(2) knew by (simp add: c0)
      have g2: "distinct (testedKeys d (Tested (distance (state w)) ?ref k x # snd (iterations n env w')))"
        if "d > distance (state w)" for d
      proof (cases "d = distance (state w) + 1")
        case True
        then show ?thesis using a by simp
      next
        case False
        with that have "d > distance (state w) + 1" by simp
        then show ?thesis using b that by simp
      qed
      have g3: "testedKeys d (Tested (distance (state w)) ?ref k x # snd (iterations n env w')) = []"
        if "d < distance (state w)" for d
        using that c by simp
      show ?thesis
        using g1 g2 g3 by (simp add: iterations_Suc_running [OF running it])
    qed
  qed
qed

lemma iterations_refs_general:
  "testedCombinations (state w) + 1 = length (filters w) \<Longrightarrow>
    \<forall>e\<in>set (snd (iterations n env w)). \<forall>d r k x. e = Tested d r k x \<longrightarrow>
      int r - int (testedCombinations (state w)) = d - distance (state w)"
proof (induction n arbitrary: w)
  case 0
  then show ?case by simp
next
  case (Suc n)
  let ?ref = "testedCombinations (state w)"
  let ?f = "filters w ! ?ref"
  show ?case
  proof (cases "testCount (state w) < MAX_TESTS")
    case False
    then show ?thesis by (simp add: iterations_Suc_finished)
  next
    case running: True
    show ?thesis
    proof (cases rule: iteration_cases [of env w])
      case (nocolors calls)
      have "\<forall>e\<in>set (snd (iterations n env (w\<lparr>randomCalls := calls\<rparr>))). \<forall>d r k x. e = Tested d r k x \<longrightarrow>
          int r - int (testedCombinations (state (w\<lparr>randomCalls := calls\<rparr>)))
            = d - distance (state (w\<lparr>randomCalls := calls\<rparr>))"
        using Suc.prems by (intro Suc.IH) simp
      then show ?thesis by (simp add: iterations_Suc_running [OF running nocolors])
    next
      case (seen calls k)
      have "\<forall>e\<in>set (snd (iterations n env (w\<lparr>randomCalls := calls\<rparr>))). \<forall>d r k x. e = Tested d r k x \<longrightarrow>
          int r - int (testedCombinations (state (w\<lparr>randomCalls := calls\<rparr>)))
            = d - distance (state (w\<lparr>randomCalls := calls\<rparr>))"
        using Suc.prems by (intro Suc.IH) simp
      then show ?thesis by (simp add: iterations_Suc_running [OF running seen(1)])
    next
      case (passed calls k x)
      define w' where "w' = \<lparr>state = (state w)\<lparr>testCount := testCount (state w) + 1,
                              totalTestsRun := totalTestsRun (state w) + 1\<rparr>,
          filters = (filters w)[?ref := BloomFilter_add env ?f k],
          randomCalls = calls\<rparr>"
      have it: "iteration env w = (w', Tested (distance (state w)) ?ref k x)"
        using passed(2) by (simp add: w'_def)
      have "\<forall>e\<in>set (snd (iterations n env w')). \<forall>d r k x. e = Tested d r k x \<longrightarrow>
          int r - int (testedCombinations (state w')) = d - distance (state w')"
        using Suc.prems by (intro Suc.IH) (simp add: w'_def)
      moreover have "testedCombinations (state w') = ?ref" "distance (state w') = distance (state w)"
        by (simp_all add: w'_def)
      ultimately show ?thesis by (simp add: iterations_Suc_running [OF running it])
    next
      case (failed calls k x)
      define w' where "w' = \<lparr>state = \<lparr>distance = distance (state w) + 1, testCount = 0,
                   totalTestsRun = totalTestsRun (state w) + 1,
                   testedCombinations = length (filters w)\<rparr>,
          filters = (filters w)[?ref := BloomFilter_add env ?f k] @ [BloomFilter_create env],
          randomCalls = calls\<rparr>"
      have it: "iteration env w = (w', Tested (distance (state w)) ?ref k x)"
        using failed(2) by (simp add: w'_def)
      have ih: "\<forall>e\<in>set (snd (iterations n env w')). \<forall>d r k x. e = Tested d r k x \<longrightarrow>
          int r - int (testedCombinations (state w')) = d - distance (state w')"
        by (intro Suc.IH) (simp add: w'_def)
      have r': "int (testedCombinations (state w')) = int ?ref + 1"
        using Suc.prems by (simp add: w'_def)
      have d': "distance (state w') = distance (state w) + 1" by (simp add: w'_def)
      have "\<forall>e\<in>set (snd (iterations n env w')). \<forall>d r k x. e = Tested d r k x \<longrightarrow>
          int r - int ?ref = d - distance (state w)"
        using ih unfolding r' d' by auto
      then show ?thesis by (simp add: iterations_Suc_running [OF running it])
    qed
  qed
qed

lemma loop_diverges_invariant:
  assumes step: "\<And>v. I v \<Longrightarrow> testCount (state v) < MAX_TESTS \<and> I (fst (iteration env v))"
    and init: "I w"
  shows "runContrastTests_loop env w = None"
proof (rule ccontr)
  assume "runContrastTests_loop env w \<noteq> None"
  then obtain r where r: "runContrastTests_loop env w = Some r" by blast
  have "\<not> (e = env \<and> I v)" if "runContrastTests_loop e v = Some r'" for e v r'
  proof (rule runContrastTests_loop.raw_induct [where P = "\<lambda>e v r'. \<not> (e = env \<and> I v)", OF _ that])
    fix f :: "'a env \<Rightarrow> 'a world \<Rightarrow> 'a world option" and e v r'
    assume IH: "\<And>e v r'. f e v = Some r' \<Longrightarrow> \<not> (e = env \<and> I v)"
      and body: "(if testCount (state v) < MAX_TESTS then f e (fst (iteration e v)) else Some v) = Some r'"
    show "\<not> (e = env \<and> I v)"
    proof
      assume bad: "e = env \<and> I v"
      then have g: "testCount (state v) < MAX_TESTS" and i: "I (fst (iteration env v))"
        using step by blast+
      from bad g body have "f env (fst (iteration env v)) = Some r'" by simp
      then have "\<not> (env = env \<and> I (fst (iteration env v)))" by (rule IH)
      with i show False by simp
    qed
  qed
  from this [OF r] init show False by simp
qed

lemma loop_returns_iterations:
  assumes "\<not> testCount (state (fst (iterations n env w))) < MAX_TESTS"
  shows "runContrastTests_loop env w = Some (fst (iterations n env w))"
  using assms
proof (induction n arbitrary: w)
  case 0
  then show ?case by (subst runContrastTests_loop.simps) simp
next
  case (Suc n)
  show ?case
  proof (cases "testCount (state w) < MAX_TESTS")
    case False
    then show ?thesis
      by (subst runContrastTests_loop.simps) (simp add: iterations_Suc_finished)
  next
    case True
    have e: "iterations (Suc n) env w =
        (fst (iterations n env (fst (iteration env w))),
         snd (iteration env w) # snd (iterations n env (fst (iteration env w))))"
      using True by (intro iterations_Suc_running) simp_all
    have "runContrastTests_loop env w = runContrastTests_loop env (fst (iteration env w))"
      using True by (subst runContrastTests_loop.simps) simp
    also have "\<dots> = Some (fst (iterations n env (fst (iteration env w))))"
      using Suc.prems by (intro Suc.IH) (simp add: e)
    finally show ?thesis by (simp add: e)
  qed
qed

lemma loop_returns_only_iterations:
  assumes "runContrastTests_loop env w = Some r"
  shows "\<exists>n. fst (iterations n env w) = r \<and> \<not> testCount (state r) < MAX_TESTS"
proof (rule runContrastTests_loop.raw_induct
    [where P = "\<lambda>e v r. \<exists>n. fst (iterations n e v) = r \<and> \<not> testCount (state r) < MAX_TESTS",
      OF _ assms])
  fix f :: "'a env \<Rightarrow> 'a world \<Rightarrow> 'a world option" and e v r
  assume IH: "\<And>e v r. f e v = Some r \<Longrightarrow>
      \<exists>n. fst (iterations n e v) = r \<and> \<not> testCount (state r) < MAX_TESTS"
    and body: "(if testCount (state v) < MAX_TESTS then f e (fst (iteration e v)) else Some v) = Some r"
  show "\<exists>n. fst (iterations n e v) = r \<and> \<not> testCount (state r) < MAX_TESTS"
  proof (cases "testCount (state v) < MAX_TESTS")
    case False
    with body have "fst (iterations 0 e v) = r \<and> \<not> testCount (state r) < MAX_TESTS" by simp
    then show ?thesis ..
  next
    case True
    with body have "f e (fst (iteration e v)) = Some r" by simp
    then obtain n where n: "fst (iterations n e (fst (iteration e v))) = r"
      "\<not> testCount (state r) < MAX_TESTS"
      using IH by blast
    have "iterations (Suc n) e v =
        (fst (iterations n e (fst (iteration e v))),
         snd (iteration e v) # snd (iterations n e (fst (iteration e v))))"
      using True by (intro iterations_Suc_running) simp_all
    then have "fst (iterations (Suc n) e v) = r \<and> \<not> testCount (state r) < MAX_TESTS"
      using n by simp
    then show ?thesis ..
  qed
qed

lemma grey_sample:
  assumes "0 \<le> distance (state w)" "distance (state w) \<le> 1000"
  shows "sample greyEnv w = ((Some grey128, Some grey128), randomCalls w + 3)"
  using assms
  by (simp add: sample_def greyEnv_def Math_floor_def getRandomColorWithLightness_def Let_def)

lemma grey_iteration:
  assumes "0 \<le> distance (state w)" "distance (state w) \<le> 1000"
    and "filters w ! testedCombinations (state w) = []"
  shows "iteration greyEnv w =
    (\<lparr>state = \<lparr>distance = distance (state w) + 1, testCount = 0,
               totalTestsRun = totalTestsRun (state w) + 1,
               testedCombinations = length (filters w)\<rparr>,
      filters = (filters w)[testedCombinations (state w) := [createColorPairKey grey128 grey128]] @ [[]],
      randomCalls = randomCalls w + 3\<rparr>,
     Tested (distance (state w)) (testedCombinations (state w)) (createColorPairKey grey128 grey128) 1)"
proof -
  have s: "fst (sample greyEnv w) = (Some grey128, Some grey128)"
    "snd (sample greyEnv w) = randomCalls w + 3"
    using assms(1,2) by (simp_all add: grey_sample)
  have h: "\<not> BloomFilter_has greyEnv (filters w ! testedCombinations (state w))
      (createColorPairKey grey128 grey128)"
    by (simp add: assms(3) greyEnv_def exactSeenSet_has_def)
  have c: "wcagContrast_luminance (Color_y grey128) (Color_y grey128) = 1"
    by (simp add: wcagContrast_luminance_def grey128_def)
  have c': "wcagContrast_luminance (Color_y grey128) (Color_y grey128) < MIN_RATIO"
    unfolding c by (simp add: MIN_RATIO_def)
  have ops: "BloomFilter_create greyEnv = []"
    "BloomFilter_add greyEnv [] (createColorPairKey grey128 grey128) = [createColorPairKey grey128 grey128]"
    by (simp_all add: greyEnv_def exactSeenSet_add_def)
  show ?thesis
    using iteration_failed [OF s(1) h c']
    by (simp only: s(2) c assms(3) ops)
qed

lemma grey_escalating_step:
  assumes "grey_escalating w"
  shows "testCount (state w) < MAX_TESTS \<and> grey_escalating (fst (iteration greyEnv w))"
proof (cases "distance (state w) \<le> 1000")
  case True
  then have "iteration greyEnv w =
    (\<lparr>state = \<lparr>distance = distance (state w) + 1, testCount = 0,
               totalTestsRun = totalTestsRun (state w) + 1,
               testedCombinations = length (filters w)\<rparr>,
      filters = (filters w)[testedCombinations (state w) := [createColorPairKey grey128 grey128]] @ [[]],
      randomCalls = randomCalls w + 3\<rparr>,
     Tested (distance (state w)) (testedCombinations (state w)) (createColorPairKey grey128 grey128) 1)"
    using assms by (intro grey_iteration) (simp_all add: grey_escalating_def)
  then show ?thesis using assms by (simp add: grey_escalating_def MAX_TESTS_def nth_append)
next
  case False
  have "iteration greyEnv w = (w\<lparr>randomCalls := snd (sample greyEnv w)\<rparr>, NoColors)"
    using False by (intro iteration_beyond_scale) (auto simp: greyEnv_def split: if_splits)
  then show ?thesis using assms False by (simp add: grey_escalating_def MAX_TESTS_def)
qed

lemma grey_initial: "grey_escalating (initialWorld greyEnv)"
  by (simp add: grey_escalating_def initialWorld_def createBloomFilter_def INITIAL_DISTANCE_def
      greyEnv_def)

lemma grey_iterations_distance:
  assumes "grey_escalating w" "distance (state w) + int n \<le> 1001"
  shows "grey_escalating (fst (iterations n greyEnv w))
    \<and> distance (state (fst (iterations n greyEnv w))) = distance (state w) + int n"
  using assms
proof (induction n arbitrary: w)
  case 0
  then show ?case by simp
next
  case (Suc n)
  have d: "distance (state w) \<le> 1000" "0 \<le> distance (state w)"
    using Suc.prems by (simp_all add: grey_escalating_def)
  have run: "testCount (state w) < MAX_TESTS" and esc: "grey_escalating (fst (iteration greyEnv w))"
    using grey_escalating_step [OF Suc.prems(1)] by simp_all
  have dist: "distance (state (fst (iteration greyEnv w))) = distance (state w) + 1"
    using d Suc.prems(1) by (subst grey_iteration) (simp_all add: grey_escalating_def)
  have e: "iterations (Suc n) greyEnv w =
      (fst (iterations n greyEnv (fst (iteration greyEnv w))),
       snd (iteration greyEnv w) # snd (iterations n greyEnv (fst (iteration greyEnv w))))"
    using run by (intro iterations_Suc_running) simp_all
  have "grey_escalating (fst (iterations n greyEnv (fst (iteration greyEnv w))))
    \<and> distance (state (fst (iterations n greyEnv (fst (iteration greyEnv w)))))
        = distance (state (fst (iteration greyEnv w))) + int n"
    using esc Suc.prems(2) dist by (intro Suc.IH) simp_all
  then show ?case by (simp add: e dist)
qed


lemma iteration_Tested_inserted:
  assumes "snd (iteration env w) = Tested d r k x"
    and "testedCombinations (state w) < length (filters w)"
  shows "d = distance (state w) \<and> r = testedCombinations (state w)
    \<and> \<not> BloomFilter_has env (filters w ! testedCombinations (state w)) k
    \<and> filters (fst (iteration env w)) ! testedCombinations (state w)
        = BloomFilter_add env (filters w ! testedCombinations (state w)) k"
proof (cases rule: iteration_cases [of env w])
  case (nocolors calls)
  with assms(1) show ?thesis by simp
next
  case (seen calls k')
  with assms(1) show ?thesis by simp
next
  case (passed calls k' x')
  with assms show ?thesis by simp
next
  case (failed calls k' x')
  with assms show ?thesis by (simp add: nth_append)
qed



lemma toy_sample_mid:
  assumes "300 \<le> distance (state w)" "distance (state w) < 700"
  shows "sample toyEnv w = ((Some grey240, Some grey128), randomCalls w + 3)"
  using assms
  by (simp add: sample_def toyEnv_def Math_floor_def getRandomColorWithLightness_def Let_def)

lemma toy_sample_far:
  assumes "700 \<le> distance (state w)" "distance (state w) \<le> 1000"
  shows "sample toyEnv w = ((Some grey240, Some grey10), randomCalls w + 3)"
  using assms
  by (simp add: sample_def toyEnv_def Math_floor_def getRandomColorWithLightness_def Let_def)

lemma toy_contrast_mid:
  "wcagContrast_luminance (Color_y grey240) (Color_y grey128) = 92 / 27"
  "wcagContrast_luminance (Color_y grey240) (Color_y grey128) < MIN_RATIO"
  by (simp_all add: wcagContrast_luminance_def grey240_def grey128_def MIN_RATIO_def)

lemma toy_ops:
  "BloomFilter_create toyEnv = []"
  "BloomFilter_has toyEnv = exactSeenSet_has"
  "BloomFilter_add toyEnv = exactSeenSet_add"
  by (simp_all add: toyEnv_def)

lemma toy_iteration_mid:
  assumes "300 \<le> distance (state w)" "distance (state w) < 700"
    and "filters w ! testedCombinations (state w) = []"
  shows "iteration toyEnv w =
    (\<lparr>state = \<lparr>distance = distance (state w) + 1, testCount = 0,
               totalTestsRun = totalTestsRun (state w) + 1,
               testedCombinations = length (filters w)\<rparr>,
      filters = (filters w)[testedCombinations (state w) := [createColorPairKey grey240 grey128]] @ [[]],
      randomCalls = randomCalls w + 3\<rparr>,
     Tested (distance (state w)) (testedCombinations (state w)) (createColorPairKey grey240 grey128)
       (92 / 27))"
proof -
  have s: "fst (sample toyEnv w) = (Some grey240, Some grey128)"
    "snd (sample toyEnv w) = randomCalls w + 3"
    using assms(1,2) by (simp_all add: toy_sample_mid)
  have h: "\<not> BloomFilter_has toyEnv (filters w ! testedCombinations (state w))
      (createColorPairKey grey240 grey128)"
    by (simp add: assms(3) toy_ops exactSeenSet_has_def)
  have a: "exactSeenSet_add [] (createColorPairKey grey240 grey128) = [createColorPairKey grey240 grey128]"
    by (simp add: exactSeenSet_add_def)
  show ?thesis
    using iteration_failed [OF s(1) h toy_contrast_mid(2)]
    by (simp only: s(2) toy_contrast_mid(1) assms(3) toy_ops a)
qed

lemma toy_initial:
  "initialWorld toyEnv =
    \<lparr>state = \<lparr>distance = 571, testCount = 0, totalTestsRun = 0, testedCombinations = 0\<rparr>,
     filters = [[]], randomCalls = 0\<rparr>"
  by (simp add: initialWorld_def createBloomFilter_def INITIAL_DISTANCE_def toy_ops)

lemma toy_first_iteration:
  "iteration toyEnv (initialWorld toyEnv) =
    (\<lparr>state = \<lparr>distance = 572, testCount = 0, totalTestsRun = 1, testedCombinations = 1\<rparr>,
      filters = [[createColorPairKey grey240 grey128], []], randomCalls = 3\<rparr>,
     Tested 571 0 (createColorPairKey grey240 grey128) (92 / 27))"
  unfolding toy_initial by (subst toy_iteration_mid) simp_all

lemma toy_second_iteration:
  "iteration toyEnv
     \<lparr>state = \<lparr>distance = 572, testCount = 0, totalTestsRun = 1, testedCombinations = 1\<rparr>,
      filters = [[createColorPairKey grey240 grey128], []], randomCalls = 3\<rparr> =
    (\<lparr>state = \<lparr>distance = 573, testCount = 0, totalTestsRun = 2, testedCombinations = 2\<rparr>,
      filters = [[createColorPairKey grey240 grey128], [createColorPairKey grey240 grey128], []],
      randomCalls = 6\<rparr>,
     Tested 572 1 (createColorPairKey grey240 grey128) (92 / 27))"
  by (subst toy_iteration_mid) simp_all

lemma toy_two_iterations:
  "snd (iterations 2 toyEnv (initialWorld toyEnv)) =
    [Tested 571 0 (createColorPairKey grey240 grey128) (92 / 27),
     Tested 572 1 (createColorPairKey grey240 grey128) (92 / 27)]"
proof -
  let ?w1 = "\<lparr>state = \<lparr>distance = 572, testCount = 0, totalTestsRun = 1, testedCombinations = 1\<rparr>,
      filters = [[createColorPairKey grey240 grey128], []], randomCalls = 3\<rparr>"
  let ?w2 = "\<lparr>state = \<lparr>distance = 573, testCount = 0, totalTestsRun = 2, testedCombinations = 2\<rparr>,
      filters = [[createColorPairKey grey240 grey128], [createColorPairKey grey240 grey128], []],
      randomCalls = 6\<rparr>"
  have g0: "testCount (state (initialWorld toyEnv)) < MAX_TESTS"
    by (simp add: toy_initial MAX_TESTS_def)
  have g1: "testCount (state ?w1) < MAX_TESTS" by (simp add: MAX_TESTS_def)
  have s1: "snd (iterations (Suc (Suc 0)) toyEnv (initialWorld toyEnv)) =
      Tested 571 0 (createColorPairKey grey240 grey128) (92 / 27)
        # snd (iterations (Suc 0) toyEnv ?w1)"
    by (simp only: iterations_Suc_running [OF g0 toy_first_iteration] snd_conv)
  have s2: "snd (iterations (Suc 0) toyEnv ?w1) =
      Tested 572 1 (createColorPairKey grey240 grey128) (92 / 27) # snd (iterations 0 toyEnv ?w2)"
    by (simp only: iterations_Suc_running [OF g1 toy_second_iteration] snd_conv)
  have n: "(2::nat) = Suc (Suc 0)" by simp
  have "snd (iterations (Suc (Suc 0)) toyEnv (initialWorld toyEnv)) =
    [Tested 571 0 (createColorPairKey grey240 grey128) (92 / 27),
     Tested 572 1 (createColorPairKey grey240 grey128) (92 / 27)]"
    by (simp only: s1 s2 iterations.simps(1) snd_conv)
  then show ?thesis by (simp only: n)
qed

lemma pair_ops:
  "BloomFilter_create pairEnv = []"
  "BloomFilter_has pairEnv = exactSeenSet_has"
  "BloomFilter_add pairEnv = exactSeenSet_add"
  by (simp_all add: pairEnv_def)

lemma pair_no_false_negatives: "no_false_negatives pairEnv"
  by (simp add: no_false_negatives_def pair_ops exactSeenSet_has_def exactSeenSet_add_def)

lemma pair_initial:
  "initialWorld pairEnv =
    \<lparr>state = \<lparr>distance = 571, testCount = 0, totalTestsRun = 0, testedCombinations = 0\<rparr>,
     filters = [[]], randomCalls = 0\<rparr>"
  by (simp add: initialWorld_def createBloomFilter_def INITIAL_DISTANCE_def pair_ops)

lemma pair_sample_first:
  assumes "distance (state w) = 571" "randomCalls w = 0 \<or> randomCalls w = 6"
  shows "sample pairEnv w = ((Some grey128, Some grey10), randomCalls w + 3)"
  using assms
  by (auto simp: sample_def pairEnv_def Math_floor_def getRandomColorWithLightness_def Let_def
      MAX_STEP_def)

lemma pair_sample_second:
  assumes "distance (state w) = 571" "randomCalls w = 3"
  shows "sample pairEnv w = ((Some grey130, Some grey10), 6)"
  using assms
  by (simp add: sample_def pairEnv_def Math_floor_def getRandomColorWithLightness_def Let_def
      MAX_STEP_def)

lemma pair_contrasts:
  "wcagContrast_luminance (Color_y grey128) (Color_y grey10) = 270 / 53"
  "wcagContrast_luminance (Color_y grey130) (Color_y grey10) = 260 / 53"
  "\<not> wcagContrast_luminance (Color_y grey128) (Color_y grey10) < MIN_RATIO"
  "\<not> wcagContrast_luminance (Color_y grey130) (Color_y grey10) < MIN_RATIO"
  by (simp_all add: wcagContrast_luminance_def grey128_def grey130_def grey10_def MIN_RATIO_def)

lemma pair_keys_differ:
  "createColorPairKey grey130 grey10 \<noteq> createColorPairKey grey128 grey10"
proof
  assume "createColorPairKey grey130 grey10 = createColorPairKey grey128 grey10"
  then have "{rgb grey130, rgb grey10} = {rgb grey128, rgb grey10}"
    by (rule createColorPairKey_determines)
  then show False by (simp add: rgb_def grey130_def grey128_def grey10_def doubleton_eq_iff)
qed

lemma pair_first_iteration:
  "iteration pairEnv
     \<lparr>state = \<lparr>distance = 571, testCount = 0, totalTestsRun = 0, testedCombinations = 0\<rparr>,
      filters = [[]], randomCalls = 0\<rparr> =
    (\<lparr>state = \<lparr>distance = 571, testCount = 1, totalTestsRun = 1, testedCombinations = 0\<rparr>,
      filters = [[createColorPairKey grey128 grey10]], randomCalls = 3\<rparr>,
     Tested 571 0 (createColorPairKey grey128 grey10) (270 / 53))"
proof -
  let ?w = "\<lparr>state = \<lparr>distance = 571, testCount = 0, totalTestsRun = 0, testedCombinations = 0\<rparr>,
      filters = [[]] :: string list list, randomCalls = 0\<rparr>"
  have s: "fst (sample pairEnv ?w) = (Some grey128, Some grey10)" "snd (sample pairEnv ?w) = 3"
    by (simp_all add: pair_sample_first)
  have h: "\<not> BloomFilter_has pairEnv (filters ?w ! testedCombinations (state ?w))
      (createColorPairKey grey128 grey10)"
    by (simp add: pair_ops exactSeenSet_has_def)
  show ?thesis
    using iteration_passed [OF s(1) h pair_contrasts(3)]
    by (simp add: s(2) pair_contrasts(1) pair_ops exactSeenSet_add_def)
qed

lemma pair_second_iteration:
  "iteration pairEnv
     \<lparr>state = \<lparr>distance = 571, testCount = 1, totalTestsRun = 1, testedCombinations = 0\<rparr>,
      filters = [[createColorPairKey grey128 grey10]], randomCalls = 3\<rparr> =
    (\<lparr>state = \<lparr>distance = 571, testCount = 2, totalTestsRun = 2, testedCombinations = 0\<rparr>,
      filters = [[createColorPairKey grey130 grey10, createColorPairKey grey128 grey10]],
      randomCalls = 6\<rparr>,
     Tested 571 0 (createColorPairKey grey130 grey10) (260 / 53))"
proof -
  let ?w = "\<lparr>state = \<lparr>distance = 571, testCount = 1, totalTestsRun = 1, testedCombinations = 0\<rparr>,
      filters = [[createColorPairKey grey128 grey10]], randomCalls = 3\<rparr>"
  have s: "fst (sample pairEnv ?w) = (Some grey130, Some grey10)" "snd (sample pairEnv ?w) = 6"
    by (simp_all add: pair_sample_second)
  have h: "\<not> BloomFilter_has pairEnv (filters ?w ! testedCombinations (state ?w))
      (createColorPairKey grey130 grey10)"
    by (simp add: pair_ops exactSeenSet_has_def pair_keys_differ)
  show ?thesis
    using iteration_passed [OF s(1) h pair_contrasts(4)]
    by (simp add: s(2) pair_contrasts(2) pair_ops exactSeenSet_add_def)
qed

lemma pair_third_sample:
  "fst (sample pairEnv
     \<lparr>state = \<lparr>distance = 571, testCount = 2, totalTestsRun = 2, testedCombinations = 0\<rparr>,
      filters = [[createColorPairKey grey130 grey10, createColorPairKey grey128 grey10]],
      randomCalls = 6\<rparr>) = (Some grey128, Some grey10)"
  "snd (sample pairEnv
     \<lparr>state = \<lparr>distance = 571, testCount = 2, totalTestsRun = 2, testedCombinations = 0\<rparr>,
      filters = [[createColorPairKey grey130 grey10, createColorPairKey grey128 grey10]],
      randomCalls = 6\<rparr>) = 9"
  by (simp_all add: pair_sample_first)

lemma pair_third_iteration:
  "iteration pairEnv
     \<lparr>state = \<lparr>distance = 571, testCount = 2, totalTestsRun = 2, testedCombinations = 0\<rparr>,
      filters = [[createColorPairKey grey130 grey10, createColorPairKey grey128 grey10]],
      randomCalls = 6\<rparr> =
    (\<lparr>state = \<lparr>distance = 571, testCount = 2, totalTestsRun = 2, testedCombinations = 0\<rparr>,
      filters = [[createColorPairKey grey130 grey10, createColorPairKey grey128 grey10]],
      randomCalls = 9\<rparr>,
     AlreadyTested (createColorPairKey grey128 grey10))"
proof -
  let ?w = "\<lparr>state = \<lparr>distance = 571, testCount = 2, totalTestsRun = 2, testedCombinations = 0\<rparr>,
      filters = [[createColorPairKey grey130 grey10, createColorPairKey grey128 grey10]],
      randomCalls = 6\<rparr>"
  have h: "BloomFilter_has pairEnv (filters ?w ! testedCombinations (state ?w))
      (createColorPairKey grey128 grey10)"
    by (simp add: pair_ops exactSeenSet_has_def)
  show ?thesis
    using iteration_AlreadyTested [OF pair_third_sample(1) h]
    by (simp add: pair_third_sample(2))
qed

lemma pair_three_iterations:
  "snd (iterations 3 pairEnv (initialWorld pairEnv)) =
    [Tested 571 0 (createColorPairKey grey128 grey10) (270 / 53),
     Tested 571 0 (createColorPairKey grey130 grey10) (260 / 53),
     AlreadyTested (createColorPairKey grey128 grey10)]"
proof -
  let ?w0 = "\<lparr>state = \<lparr>distance = 571, testCount = 0, totalTestsRun = 0, testedCombinations = 0\<rparr>,
      filters = [[]] :: string list list, randomCalls = 0\<rparr>"
  let ?w1 = "\<lparr>state = \<lparr>distance = 571, testCount = 1, totalTestsRun = 1, testedCombinations = 0\<rparr>,
      filters = [[createColorPairKey grey128 grey10]], randomCalls = 3\<rparr>"
  let ?w2 = "\<lparr>state = \<lparr>distance = 571, testCount = 2, totalTestsRun = 2, testedCombinations = 0\<rparr>,
      filters = [[createColorPairKey grey130 grey10, createColorPairKey grey128 grey10]],
      randomCalls = 6\<rparr>"
  have g0: "testCount (state ?w0) < MAX_TESTS" and g1: "testCount (state ?w1) < MAX_TESTS"
    and g2: "testCount (state ?w2) < MAX_TESTS"
    by (simp_all add: MAX_TESTS_def)
  have s1: "snd (iterations (Suc (Suc (Suc 0))) pairEnv ?w0) =
      Tested 571 0 (createColorPairKey grey128 grey10) (270 / 53)
        # snd (iterations (Suc (Suc 0)) pairEnv ?w1)"
    by (simp only: iterations_Suc_running [OF g0 pair_first_iteration] snd_conv)
  have s2: "snd (iterations (Suc (Suc 0)) pairEnv ?w1) =
      Tested 571 0 (createColorPairKey grey130 grey10) (260 / 53)
        # snd (iterations (Suc 0) pairEnv ?w2)"
    by (simp only: iterations_Suc_running [OF g1 pair_second_iteration] snd_conv)
  have s3: "snd (iterations (Suc 0) pairEnv ?w2) = [AlreadyTested (createColorPairKey grey128 grey10)]"
    by (simp only: iterations_Suc_running [OF g2 pair_third_iteration] snd_conv
        iterations.simps(1))
  have n: "(3::nat) = Suc (Suc (Suc 0))" by simp
  have "snd (iterations (Suc (Suc (Suc 0))) pairEnv ?w0) =
    [Tested 571 0 (createColorPairKey grey128 grey10) (270 / 53),
     Tested 571 0 (createColorPairKey grey130 grey10) (260 / 53),
     AlreadyTested (createColorPairKey grey128 grey10)]"
    by (simp only: s1 s2 s3)
  then show ?thesis by (simp only: n pair_initial)
qed

lemma sample_missing_bucket:
  assumes "step1 = Math_floor (Math_random env (randomCalls w)
      * real_of_int (MAX_STEP + 1 - distance (state w)))"
    and "step2 = step1 + distance (state w)"
    and "bucket = (\<lambda>step. case lightnessValues env step of
        None \<Rightarrow> None | Some lightness \<Rightarrow> colorsByLightness env lightness)"
    and "bucket step1 = None \<or> bucket step1 = Some [] \<or> bucket step2 = None \<or> bucket step2 = Some []"
  shows "fst (fst (sample env w)) = None \<or> snd (fst (sample env w)) = None"
proof -
  have none: "fst (getRandomColorWithLightness (Math_random env) (colorsByLightness env)
      (lightnessValues env step) calls) = None"
    if "bucket step = None \<or> bucket step = Some []" for step calls
    using that unfolding assms(3) getRandomColorWithLightness_def
    by (auto split: option.splits)
  have f: "fst (fst (sample env w)) =
      fst (getRandomColorWithLightness (Math_random env) (colorsByLightness env)
        (lightnessValues env step1) (randomCalls w + 1))"
    unfolding sample_def assms(1) by (simp add: Let_def split_def)
  have s: "snd (fst (sample env w)) =
      fst (getRandomColorWithLightness (Math_random env) (colorsByLightness env)
        (lightnessValues env step2)
        (snd (getRandomColorWithLightness (Math_random env) (colorsByLightness env)
          (lightnessValues env step1) (randomCalls w + 1))))"
    unfolding sample_def assms(1,2) by (simp add: Let_def split_def)
  from assms(4) consider "bucket step1 = None \<or> bucket step1 = Some []"
    | "bucket step2 = None \<or> bucket step2 = Some []" by blast
  then show ?thesis
  proof cases
    case 1
    then show ?thesis unfolding f by (simp add: none)
  next
    case 2
    then show ?thesis unfolding s by (simp add: none)
  qed
qed

lemma gap_fields:
  "lightnessValues gapEnv =
     (\<lambda>step. if 0 \<le> step \<and> step \<le> 1000
                then Some (if step < 300 then 0.9 else if step < 700 then 0.5 else 0.1)
                else None)"
  "colorsByLightness gapEnv = [0.5 \<mapsto> [], 0.9 \<mapsto> [grey240]]"
  "Math_random gapEnv = (\<lambda>call. 0)"
  "BloomFilter_create gapEnv = []"
  by (simp_all add: gapEnv_def)

lemma gap_initial:
  "initialWorld gapEnv =
    \<lparr>state = \<lparr>distance = 571, testCount = 0, totalTestsRun = 0, testedCombinations = 0\<rparr>,
     filters = [[]], randomCalls = 0\<rparr>"
  by (simp add: initialWorld_def createBloomFilter_def INITIAL_DISTANCE_def gap_fields)
section \<open>The search loop: the claims\<close>

text \<open>
  C1, as stated, fails. On \<open>greyEnv\<close> every test fails, so after \<open>430\<close> iterations the distance
  is \<open>1001\<close> and the interval \<open>[0, 1000 - distance]\<close> is empty; from that world the loop is never
  left, and so the search as a whole never returns: it reports neither failure nor success.
\<close>

theorem search_beyond_scale_counterexample:
  "distance (state (fst (iterations 430 greyEnv (initialWorld greyEnv)))) = 1001
   \<and> runContrastTests_loop greyEnv (fst (iterations 430 greyEnv (initialWorld greyEnv))) = None
   \<and> runContrastTests greyEnv = None"
proof -
  have i: "distance (state (initialWorld greyEnv)) = 571"
    by (simp add: initialWorld_def createBloomFilter_def INITIAL_DISTANCE_def)
  have a: "grey_escalating (fst (iterations 430 greyEnv (initialWorld greyEnv)))
    \<and> distance (state (fst (iterations 430 greyEnv (initialWorld greyEnv))))
        = distance (state (initialWorld greyEnv)) + int 430"
    using grey_initial by (intro grey_iterations_distance) (simp_all add: i)
  then have d: "distance (state (fst (iterations 430 greyEnv (initialWorld greyEnv)))) = 1001"
    by (simp add: i)
  have b: "runContrastTests_loop greyEnv (fst (iterations 430 greyEnv (initialWorld greyEnv))) = None"
    using grey_escalating_step a by (intro loop_diverges_invariant [where I = grey_escalating]) simp_all
  have c: "runContrastTests greyEnv = None"
    unfolding runContrastTests_def
    using grey_escalating_step grey_initial
    by (intro loop_diverges_invariant [where I = grey_escalating]) simp_all
  from d b c show ?thesis by simp
qed

text \<open>
  C1, amended. When the distance exceeds \<open>1000\<close> (with a lightness table defined on the steps
  \<open>0..1000\<close> only and \<open>Math.random()\<close> in \<open>[0, 1)\<close>), the search does not terminate and reports
  nothing: every iteration finds no colour for the second lightness and is discarded with the
  state and the filters unchanged, and while \<open>testCount\<close> is below \<open>MAX_TESTS\<close> the loop is never
  left.
\<close>

theorem search_beyond_scale_never_terminates:
  assumes "dom (lightnessValues env) \<subseteq> {0..1000}"
    and "\<forall>call. 0 \<le> Math_random env call \<and> Math_random env call < 1"
    and "distance (state w) > 1000"
    and "testCount (state w) < MAX_TESTS"
  shows "snd (iteration env w) = NoColors
    \<and> state (fst (iteration env w)) = state w
    \<and> filters (fst (iteration env w)) = filters w
    \<and> runContrastTests_loop env w = None"
proof -
  have r: "\<forall>call. Math_random env call \<le> 1" using assms(2) by (simp add: less_imp_le)
  have "iteration env w = (w\<lparr>randomCalls := snd (sample env w)\<rparr>, NoColors)"
    using assms(1) r assms(3) by (intro iteration_beyond_scale) simp_all
  moreover have "runContrastTests_loop env w = None"
    using assms(1) r assms(3,4) by (rule loop_diverges_beyond_scale)
  ultimately show ?thesis by simp
qed

theorem search_beyond_scale_never_terminates_witness:
  "runContrastTests_loop greyEnv
     \<lparr>state = \<lparr>distance = 1001, testCount = 0, totalTestsRun = 430, testedCombinations = 0\<rparr>,
      filters = [[]], randomCalls = 0\<rparr> = None
   \<and> snd (iteration greyEnv
     \<lparr>state = \<lparr>distance = 1001, testCount = 0, totalTestsRun = 430, testedCombinations = 0\<rparr>,
      filters = [[]], randomCalls = 0\<rparr>) = NoColors"
proof -
  let ?w = "\<lparr>state = \<lparr>distance = 1001, testCount = 0, totalTestsRun = 430, testedCombinations = 0\<rparr>,
      filters = [[]] :: string list list, randomCalls = 0\<rparr>"
  have 1: "dom (lightnessValues greyEnv) \<subseteq> {0..1000}"
    by (auto simp: greyEnv_def split: if_splits)
  have 2: "\<forall>call. 0 \<le> Math_random greyEnv call \<and> Math_random greyEnv call < 1"
    by (simp add: greyEnv_def)
  have 3: "distance (state ?w) > 1000" by simp
  have 4: "testCount (state ?w) < MAX_TESTS" by (simp add: MAX_TESTS_def)
  show ?thesis using search_beyond_scale_never_terminates [OF 1 2 3 4] by simp
qed

text \<open>
  C4. With a seen-set that never reports a false negative, and a world whose filter reference
  is allocated, no pair key is passed to the contrast evaluator twice at the same distance: in
  every run of \<open>n\<close> iterations the keys tested at a distance \<open>d\<close> are distinct. In one iteration, a
  key that is tested was not reported by the filter and is in the filter afterwards, and a key
  that the filter reports is skipped.
\<close>

theorem no_pair_tested_twice:
  assumes "no_false_negatives env"
    and "testedCombinations (state w) < length (filters w)"
  shows "distinct (testedKeys d (snd (iterations n env w)))
    \<and> (\<forall>d' r k x. snd (iteration env w) = Tested d' r k x \<longrightarrow>
          \<not> BloomFilter_has env (filters w ! testedCombinations (state w)) k
          \<and> filters (fst (iteration env w)) ! testedCombinations (state w)
              = BloomFilter_add env (filters w ! testedCombinations (state w)) k)
    \<and> (\<forall>c1 c2. fst (sample env w) = (Some c1, Some c2)
          \<and> BloomFilter_has env (filters w ! testedCombinations (state w)) (createColorPairKey c1 c2)
          \<longrightarrow> snd (iteration env w) = AlreadyTested (createColorPairKey c1 c2))"
proof (intro conjI allI impI)
  have g: "distinct ([] @ testedKeys (distance (state w)) (snd (iterations n env w)))
    \<and> (\<forall>d. d > distance (state w) \<longrightarrow> distinct (testedKeys d (snd (iterations n env w))))
    \<and> (\<forall>d. d < distance (state w) \<longrightarrow> testedKeys d (snd (iterations n env w)) = [])"
    using assms by (intro iterations_distinct_general) simp_all
  consider "d = distance (state w)" | "d > distance (state w)" | "d < distance (state w)"
    by linarith
  then show "distinct (testedKeys d (snd (iterations n env w)))"
    using g by cases simp_all
next
  fix d' r k x
  assume t: "snd (iteration env w) = Tested d' r k x"
  from iteration_Tested_inserted [OF t assms(2)]
  show "\<not> BloomFilter_has env (filters w ! testedCombinations (state w)) k"
    and "filters (fst (iteration env w)) ! testedCombinations (state w)
        = BloomFilter_add env (filters w ! testedCombinations (state w)) k"
    by simp_all
next
  fix c1 c2
  assume "fst (sample env w) = (Some c1, Some c2)
      \<and> BloomFilter_has env (filters w ! testedCombinations (state w)) (createColorPairKey c1 c2)"
  then show "snd (iteration env w) = AlreadyTested (createColorPairKey c1 c2)"
    by (simp add: iteration_AlreadyTested)
qed

theorem no_pair_tested_twice_witness:
  "no_false_negatives pairEnv
   \<and> snd (iterations 3 pairEnv (initialWorld pairEnv)) =
       [Tested 571 0 (createColorPairKey grey128 grey10) (270 / 53),
        Tested 571 0 (createColorPairKey grey130 grey10) (260 / 53),
        AlreadyTested (createColorPairKey grey128 grey10)]
   \<and> testedKeys 571 (snd (iterations 3 pairEnv (initialWorld pairEnv)))
       = [createColorPairKey grey128 grey10, createColorPairKey grey130 grey10]
   \<and> distinct (testedKeys 571 (snd (iterations 3 pairEnv (initialWorld pairEnv))))
   \<and> distinct [createColorPairKey grey128 grey10, createColorPairKey grey130 grey10]
   \<and> BloomFilter_has pairEnv [createColorPairKey grey130 grey10, createColorPairKey grey128 grey10]
        (createColorPairKey grey128 grey10)
   \<and> snd (iteration pairEnv
        \<lparr>state = \<lparr>distance = 571, testCount = 2, totalTestsRun = 2, testedCombinations = 0\<rparr>,
         filters = [[createColorPairKey grey130 grey10, createColorPairKey grey128 grey10]],
         randomCalls = 6\<rparr>) = AlreadyTested (createColorPairKey grey128 grey10)
   \<and> \<not> BloomFilter_has pairEnv [createColorPairKey grey128 grey10] (createColorPairKey grey130 grey10)
   \<and> filters (fst (iteration pairEnv
        \<lparr>state = \<lparr>distance = 571, testCount = 1, totalTestsRun = 1, testedCombinations = 0\<rparr>,
         filters = [[createColorPairKey grey128 grey10]], randomCalls = 3\<rparr>)) ! 0
       = BloomFilter_add pairEnv [createColorPairKey grey128 grey10] (createColorPairKey grey130 grey10)"
proof -
  let ?w0 = "initialWorld pairEnv"
  let ?w1 = "\<lparr>state = \<lparr>distance = 571, testCount = 1, totalTestsRun = 1, testedCombinations = 0\<rparr>,
      filters = [[createColorPairKey grey128 grey10]], randomCalls = 3\<rparr>"
  let ?w2 = "\<lparr>state = \<lparr>distance = 571, testCount = 2, totalTestsRun = 2, testedCombinations = 0\<rparr>,
      filters = [[createColorPairKey grey130 grey10, createColorPairKey grey128 grey10]],
      randomCalls = 6\<rparr>"
  have r0: "testedCombinations (state ?w0) < length (filters ?w0)" by (simp add: pair_initial)
  have r1: "testedCombinations (state ?w1) < length (filters ?w1)" by simp
  have r2: "testedCombinations (state ?w2) < length (filters ?w2)" by simp
  have keys: "testedKeys 571 (snd (iterations 3 pairEnv ?w0))
       = [createColorPairKey grey128 grey10, createColorPairKey grey130 grey10]"
    by (simp add: pair_three_iterations)
  have d: "distinct (testedKeys 571 (snd (iterations 3 pairEnv ?w0)))"
    using no_pair_tested_twice [OF pair_no_false_negatives r0, of 571 3] by (rule conjunct1)
  have d': "distinct [createColorPairKey grey128 grey10, createColorPairKey grey130 grey10]"
    using d unfolding keys .
  have h2: "fst (sample pairEnv ?w2) = (Some grey128, Some grey10)
      \<and> BloomFilter_has pairEnv (filters ?w2 ! testedCombinations (state ?w2))
            (createColorPairKey grey128 grey10)"
    by (simp add: pair_third_sample(1) pair_ops exactSeenSet_has_def)
  have skip: "snd (iteration pairEnv ?w2) = AlreadyTested (createColorPairKey grey128 grey10)"
    using no_pair_tested_twice [OF pair_no_false_negatives r2, of 571 0] h2 by blast
  have t1: "snd (iteration pairEnv ?w1) = Tested 571 0 (createColorPairKey grey130 grey10) (260 / 53)"
    by (simp add: pair_second_iteration)
  have ins: "\<not> BloomFilter_has pairEnv (filters ?w1 ! testedCombinations (state ?w1))
        (createColorPairKey grey130 grey10)
      \<and> filters (fst (iteration pairEnv ?w1)) ! testedCombinations (state ?w1)
        = BloomFilter_add pairEnv (filters ?w1 ! testedCombinations (state ?w1))
            (createColorPairKey grey130 grey10)"
    using no_pair_tested_twice [OF pair_no_false_negatives r1, of 571 0] t1 by blast
  have has: "BloomFilter_has pairEnv
      [createColorPairKey grey130 grey10, createColorPairKey grey128 grey10]
      (createColorPairKey grey128 grey10)"
    using h2 by simp
  from pair_no_false_negatives pair_three_iterations keys d d' has skip ins
  show ?thesis by simp
qed

theorem contrast_failure_escalates:
  "(\<forall>c1 c2. fst (sample env w) = (Some c1, Some c2)
      \<and> \<not> BloomFilter_has env (filters w ! testedCombinations (state w)) (createColorPairKey c1 c2)
      \<and> wcagContrast_luminance (Color_y c1) (Color_y c2) < MIN_RATIO
      \<longrightarrow> state (fst (iteration env w))
            = \<lparr>distance = distance (state w) + 1, testCount = 0,
               totalTestsRun = totalTestsRun (state w) + 1,
               testedCombinations = length (filters w)\<rparr>
          \<and> filters (fst (iteration env w))
            = (filters w)[testedCombinations (state w) :=
                 BloomFilter_add env (filters w ! testedCombinations (state w))
                   (createColorPairKey c1 c2)]
              @ [BloomFilter_create env])
   \<and> (testedCombinations (state w) + 1 = length (filters w) \<longrightarrow>
        (\<forall>n d1 r1 k1 x1 d2 r2 k2 x2.
           Tested d1 r1 k1 x1 \<in> set (snd (iterations n env w))
           \<and> Tested d2 r2 k2 x2 \<in> set (snd (iterations n env w))
           \<and> d1 \<noteq> d2 \<longrightarrow> r1 \<noteq> r2))"
proof (intro conjI allI impI)
  fix c1 c2
  assume h: "fst (sample env w) = (Some c1, Some c2)
      \<and> \<not> BloomFilter_has env (filters w ! testedCombinations (state w)) (createColorPairKey c1 c2)
      \<and> wcagContrast_luminance (Color_y c1) (Color_y c2) < MIN_RATIO"
  then have it: "iteration env w =
    (\<lparr>state = \<lparr>distance = distance (state w) + 1, testCount = 0,
               totalTestsRun = totalTestsRun (state w) + 1,
               testedCombinations = length (filters w)\<rparr>,
      filters = (filters w)[testedCombinations (state w) :=
        BloomFilter_add env (filters w ! testedCombinations (state w)) (createColorPairKey c1 c2)]
        @ [BloomFilter_create env],
      randomCalls = snd (sample env w)\<rparr>,
     Tested (distance (state w)) (testedCombinations (state w)) (createColorPairKey c1 c2)
       (wcagContrast_luminance (Color_y c1) (Color_y c2)))"
    by (intro iteration_failed) simp_all
  show "state (fst (iteration env w))
            = \<lparr>distance = distance (state w) + 1, testCount = 0,
               totalTestsRun = totalTestsRun (state w) + 1,
               testedCombinations = length (filters w)\<rparr>"
    by (simp add: it)
  show "filters (fst (iteration env w))
            = (filters w)[testedCombinations (state w) :=
                 BloomFilter_add env (filters w ! testedCombinations (state w))
                   (createColorPairKey c1 c2)]
              @ [BloomFilter_create env]"
    by (simp add: it)
next
  fix n d1 r1 k1 x1 d2 r2 k2 x2
  assume inv: "testedCombinations (state w) + 1 = length (filters w)"
    and h: "Tested d1 r1 k1 x1 \<in> set (snd (iterations n env w))
           \<and> Tested d2 r2 k2 x2 \<in> set (snd (iterations n env w))
           \<and> d1 \<noteq> d2"
  have g: "\<forall>e\<in>set (snd (iterations n env w)). \<forall>d r k x. e = Tested d r k x \<longrightarrow>
      int r - int (testedCombinations (state w)) = d - distance (state w)"
    using inv by (rule iterations_refs_general)
  from g h have "int r1 - int (testedCombinations (state w)) = d1 - distance (state w)" by blast
  moreover from g h have "int r2 - int (testedCombinations (state w)) = d2 - distance (state w)" by blast
  ultimately show "r1 \<noteq> r2" using h by auto
qed

theorem contrast_failure_escalates_witness:
  "state (fst (iteration toyEnv (initialWorld toyEnv)))
     = \<lparr>distance = 572, testCount = 0, totalTestsRun = 1, testedCombinations = 1\<rparr>
   \<and> filters (fst (iteration toyEnv (initialWorld toyEnv)))
     = [[createColorPairKey grey240 grey128], []]
   \<and> snd (iterations 2 toyEnv (initialWorld toyEnv)) =
       [Tested 571 0 (createColorPairKey grey240 grey128) (92 / 27),
        Tested 572 1 (createColorPairKey grey240 grey128) (92 / 27)]
   \<and> (0::nat) \<noteq> 1"
proof -
  let ?w = "initialWorld toyEnv"
  have s: "fst (sample toyEnv ?w) = (Some grey240, Some grey128)
      \<and> \<not> BloomFilter_has toyEnv (filters ?w ! testedCombinations (state ?w))
            (createColorPairKey grey240 grey128)
      \<and> wcagContrast_luminance (Color_y grey240) (Color_y grey128) < MIN_RATIO"
    by (simp add: toy_sample_mid toy_contrast_mid(2) toy_initial toy_ops exactSeenSet_has_def)
  have a: "state (fst (iteration toyEnv ?w))
            = \<lparr>distance = distance (state ?w) + 1, testCount = 0,
               totalTestsRun = totalTestsRun (state ?w) + 1,
               testedCombinations = length (filters ?w)\<rparr>
          \<and> filters (fst (iteration toyEnv ?w))
            = (filters ?w)[testedCombinations (state ?w) :=
                 BloomFilter_add toyEnv (filters ?w ! testedCombinations (state ?w))
                   (createColorPairKey grey240 grey128)]
              @ [BloomFilter_create toyEnv]"
    using contrast_failure_escalates [of toyEnv ?w] s by blast
  have i: "testedCombinations (state ?w) + 1 = length (filters ?w)" by (simp add: toy_initial)
  have m: "Tested 571 0 (createColorPairKey grey240 grey128) (92 / 27) \<in> set (snd (iterations 2 toyEnv ?w))
      \<and> Tested 572 1 (createColorPairKey grey240 grey128) (92 / 27) \<in> set (snd (iterations 2 toyEnv ?w))
      \<and> (571::int) \<noteq> 572"
    by (simp add: toy_two_iterations)
  have b: "(0::nat) \<noteq> 1"
    using contrast_failure_escalates [of toyEnv ?w] i m by blast
  have a': "state (fst (iteration toyEnv ?w))
     = \<lparr>distance = 572, testCount = 0, totalTestsRun = 1, testedCombinations = 1\<rparr>
   \<and> filters (fst (iteration toyEnv ?w)) = [[createColorPairKey grey240 grey128], []]"
    using a by (simp add: toy_initial toy_ops exactSeenSet_add_def)
  from a' b toy_two_iterations show ?thesis by simp
qed

text \<open>
  C8. A discarded iteration leaves the search state unchanged. When the bucket of one of the
  two sampled lightness values is absent or empty (\<open>colorsByLightness.get\<close> of the lightness of
  \<open>step1\<close> or of \<open>step2\<close> gives no array, or an empty one), the iteration is discarded; so it is
  when one of the two sampled colours is missing for any reason, and when the filter reports
  the pair key. A discarded iteration changes neither the \<open>TestState\<close> (\<open>distance\<close>, \<open>testCount\<close>,
  \<open>totalTestsRun\<close>, the filter reference) nor the content of any filter.
\<close>

theorem discarded_iteration_frame:
  "(let step1 = Math_floor (Math_random env (randomCalls w)
                  * real_of_int (MAX_STEP + 1 - distance (state w)));
        step2 = step1 + distance (state w);
        bucket = (\<lambda>step. case lightnessValues env step of
                    None \<Rightarrow> None | Some lightness \<Rightarrow> colorsByLightness env lightness)
    in bucket step1 = None \<or> bucket step1 = Some [] \<or> bucket step2 = None \<or> bucket step2 = Some []
       \<longrightarrow> snd (iteration env w) = NoColors
         \<and> state (fst (iteration env w)) = state w
         \<and> filters (fst (iteration env w)) = filters w)
   \<and> (fst (fst (sample env w)) = None \<or> snd (fst (sample env w)) = None \<longrightarrow>
      snd (iteration env w) = NoColors
      \<and> state (fst (iteration env w)) = state w
      \<and> filters (fst (iteration env w)) = filters w)
   \<and> (\<forall>c1 c2. fst (sample env w) = (Some c1, Some c2)
        \<and> BloomFilter_has env (filters w ! testedCombinations (state w)) (createColorPairKey c1 c2)
        \<longrightarrow> snd (iteration env w) = AlreadyTested (createColorPairKey c1 c2)
          \<and> state (fst (iteration env w)) = state w
          \<and> filters (fst (iteration env w)) = filters w)
   \<and> (\<forall>l calls. colorsByLightness env l = None \<or> colorsByLightness env l = Some [] \<longrightarrow>
        getRandomColorWithLightness (Math_random env) (colorsByLightness env) (Some l) calls
          = (None, calls))
   \<and> ((snd (iteration env w) = NoColors \<or> (\<exists>k. snd (iteration env w) = AlreadyTested k)) \<longrightarrow>
        state (fst (iteration env w)) = state w \<and> filters (fst (iteration env w)) = filters w)"
proof -
  have frame: "snd (iteration env w) = NoColors
      \<and> state (fst (iteration env w)) = state w
      \<and> filters (fst (iteration env w)) = filters w"
    if "fst (fst (sample env w)) = None \<or> snd (fst (sample env w)) = None"
  proof -
    have "iteration env w = (w\<lparr>randomCalls := snd (sample env w)\<rparr>, NoColors)"
      using that by (rule iteration_NoColors)
    then show ?thesis by simp
  qed
  have a: "(let step1 = Math_floor (Math_random env (randomCalls w)
                  * real_of_int (MAX_STEP + 1 - distance (state w)));
        step2 = step1 + distance (state w);
        bucket = (\<lambda>step. case lightnessValues env step of
                    None \<Rightarrow> None | Some lightness \<Rightarrow> colorsByLightness env lightness)
    in bucket step1 = None \<or> bucket step1 = Some [] \<or> bucket step2 = None \<or> bucket step2 = Some []
       \<longrightarrow> snd (iteration env w) = NoColors
         \<and> state (fst (iteration env w)) = state w
         \<and> filters (fst (iteration env w)) = filters w)"
    unfolding Let_def
  proof
    assume h: "(case lightnessValues env (Math_floor (Math_random env (randomCalls w)
            * real_of_int (MAX_STEP + 1 - distance (state w)))) of
          None \<Rightarrow> None | Some lightness \<Rightarrow> colorsByLightness env lightness) = None
      \<or> (case lightnessValues env (Math_floor (Math_random env (randomCalls w)
            * real_of_int (MAX_STEP + 1 - distance (state w)))) of
          None \<Rightarrow> None | Some lightness \<Rightarrow> colorsByLightness env lightness) = Some []
      \<or> (case lightnessValues env (Math_floor (Math_random env (randomCalls w)
            * real_of_int (MAX_STEP + 1 - distance (state w))) + distance (state w)) of
          None \<Rightarrow> None | Some lightness \<Rightarrow> colorsByLightness env lightness) = None
      \<or> (case lightnessValues env (Math_floor (Math_random env (randomCalls w)
            * real_of_int (MAX_STEP + 1 - distance (state w))) + distance (state w)) of
          None \<Rightarrow> None | Some lightness \<Rightarrow> colorsByLightness env lightness) = Some []"
    have "fst (fst (sample env w)) = None \<or> snd (fst (sample env w)) = None"
      by (rule sample_missing_bucket [OF refl refl refl h])
    then show "snd (iteration env w) = NoColors
         \<and> state (fst (iteration env w)) = state w
         \<and> filters (fst (iteration env w)) = filters w"
      by (rule frame)
  qed
  have b: "fst (fst (sample env w)) = None \<or> snd (fst (sample env w)) = None \<longrightarrow>
      snd (iteration env w) = NoColors
      \<and> state (fst (iteration env w)) = state w
      \<and> filters (fst (iteration env w)) = filters w"
    using frame by blast
  have c: "\<forall>c1 c2. fst (sample env w) = (Some c1, Some c2)
        \<and> BloomFilter_has env (filters w ! testedCombinations (state w)) (createColorPairKey c1 c2)
        \<longrightarrow> snd (iteration env w) = AlreadyTested (createColorPairKey c1 c2)
          \<and> state (fst (iteration env w)) = state w
          \<and> filters (fst (iteration env w)) = filters w"
  proof (intro allI impI)
    fix c1 c2
    assume "fst (sample env w) = (Some c1, Some c2)
        \<and> BloomFilter_has env (filters w ! testedCombinations (state w)) (createColorPairKey c1 c2)"
    then have "iteration env w =
        (w\<lparr>randomCalls := snd (sample env w)\<rparr>, AlreadyTested (createColorPairKey c1 c2))"
      by (intro iteration_AlreadyTested) simp_all
    then show "snd (iteration env w) = AlreadyTested (createColorPairKey c1 c2)
          \<and> state (fst (iteration env w)) = state w
          \<and> filters (fst (iteration env w)) = filters w"
      by simp
  qed
  have d: "\<forall>l calls. colorsByLightness env l = None \<or> colorsByLightness env l = Some [] \<longrightarrow>
        getRandomColorWithLightness (Math_random env) (colorsByLightness env) (Some l) calls
          = (None, calls)"
    by (simp add: getRandomColorWithLightness_no_bucket)
  have e: "(snd (iteration env w) = NoColors \<or> (\<exists>k. snd (iteration env w) = AlreadyTested k)) \<longrightarrow>
        state (fst (iteration env w)) = state w \<and> filters (fst (iteration env w)) = filters w"
  proof
    assume h: "snd (iteration env w) = NoColors \<or> (\<exists>k. snd (iteration env w) = AlreadyTested k)"
    show "state (fst (iteration env w)) = state w \<and> filters (fst (iteration env w)) = filters w"
      using h by (cases rule: iteration_cases [of env w]) auto
  qed
  from a b c d e show ?thesis by (intro conjI)
qed

theorem discarded_iteration_frame_witness:
  "colorsByLightness gapEnv 0.5 = Some []
   \<and> snd (iteration gapEnv (initialWorld gapEnv)) = NoColors
   \<and> state (fst (iteration gapEnv (initialWorld gapEnv)))
       = \<lparr>distance = 571, testCount = 0, totalTestsRun = 0, testedCombinations = 0\<rparr>
   \<and> filters (fst (iteration gapEnv (initialWorld gapEnv))) = [[]]
   \<and> colorsByLightness gapEnv 0.1 = None
   \<and> snd (iteration gapEnv
      \<lparr>state = \<lparr>distance = 700, testCount = 0, totalTestsRun = 129, testedCombinations = 0\<rparr>,
       filters = [[]], randomCalls = 0\<rparr>) = NoColors
   \<and> state (fst (iteration gapEnv
      \<lparr>state = \<lparr>distance = 700, testCount = 0, totalTestsRun = 129, testedCombinations = 0\<rparr>,
       filters = [[]], randomCalls = 0\<rparr>))
     = \<lparr>distance = 700, testCount = 0, totalTestsRun = 129, testedCombinations = 0\<rparr>
   \<and> snd (iteration toyEnv
      \<lparr>state = \<lparr>distance = 700, testCount = 1, totalTestsRun = 130, testedCombinations = 0\<rparr>,
       filters = [[createColorPairKey grey240 grey10]], randomCalls = 7\<rparr>)
     = AlreadyTested (createColorPairKey grey240 grey10)
   \<and> state (fst (iteration toyEnv
      \<lparr>state = \<lparr>distance = 700, testCount = 1, totalTestsRun = 130, testedCombinations = 0\<rparr>,
       filters = [[createColorPairKey grey240 grey10]], randomCalls = 7\<rparr>))
     = \<lparr>distance = 700, testCount = 1, totalTestsRun = 130, testedCombinations = 0\<rparr>
   \<and> filters (fst (iteration toyEnv
      \<lparr>state = \<lparr>distance = 700, testCount = 1, totalTestsRun = 130, testedCombinations = 0\<rparr>,
       filters = [[createColorPairKey grey240 grey10]], randomCalls = 7\<rparr>))
     = [[createColorPairKey grey240 grey10]]
   \<and> snd (iteration toyEnv
      \<lparr>state = \<lparr>distance = 1001, testCount = 0, totalTestsRun = 430, testedCombinations = 0\<rparr>,
       filters = [[]], randomCalls = 0\<rparr>) = NoColors
   \<and> state (fst (iteration toyEnv
      \<lparr>state = \<lparr>distance = 1001, testCount = 0, totalTestsRun = 430, testedCombinations = 0\<rparr>,
       filters = [[]], randomCalls = 0\<rparr>))
     = \<lparr>distance = 1001, testCount = 0, totalTestsRun = 430, testedCombinations = 0\<rparr>"
proof -
  let ?wG = "initialWorld gapEnv"
  let ?wH = "\<lparr>state = \<lparr>distance = 700, testCount = 0, totalTestsRun = 129, testedCombinations = 0\<rparr>,
       filters = [[]] :: string list list, randomCalls = 0\<rparr>"
  let ?wB = "\<lparr>state = \<lparr>distance = 700, testCount = 1, totalTestsRun = 130, testedCombinations = 0\<rparr>,
       filters = [[createColorPairKey grey240 grey10]], randomCalls = 7\<rparr>"
  let ?wN = "\<lparr>state = \<lparr>distance = 1001, testCount = 0, totalTestsRun = 430, testedCombinations = 0\<rparr>,
       filters = [[]] :: string list list, randomCalls = 0\<rparr>"
  have e: "colorsByLightness gapEnv 0.5 = Some []" "colorsByLightness gapEnv 0.1 = None"
    by (simp_all add: gap_fields)
  have g: "snd (iteration gapEnv ?wG) = NoColors
      \<and> state (fst (iteration gapEnv ?wG)) = state ?wG
      \<and> filters (fst (iteration gapEnv ?wG)) = filters ?wG"
    using discarded_iteration_frame [of gapEnv ?wG, THEN conjunct1]
    by (simp add: Let_def gap_fields gap_initial Math_floor_def MAX_STEP_def)
  have h: "snd (iteration gapEnv ?wH) = NoColors
      \<and> state (fst (iteration gapEnv ?wH)) = state ?wH
      \<and> filters (fst (iteration gapEnv ?wH)) = filters ?wH"
    using discarded_iteration_frame [of gapEnv ?wH, THEN conjunct1]
    by (simp add: Let_def gap_fields Math_floor_def MAX_STEP_def)
  have sB: "fst (sample toyEnv ?wB) = (Some grey240, Some grey10)
      \<and> BloomFilter_has toyEnv (filters ?wB ! testedCombinations (state ?wB))
            (createColorPairKey grey240 grey10)"
    by (simp add: toy_sample_far toy_ops exactSeenSet_has_def)
  have b: "snd (iteration toyEnv ?wB) = AlreadyTested (createColorPairKey grey240 grey10)
          \<and> state (fst (iteration toyEnv ?wB)) = state ?wB
          \<and> filters (fst (iteration toyEnv ?wB)) = filters ?wB"
    using discarded_iteration_frame [of toyEnv ?wB] sB by blast
  have sN: "fst (fst (sample toyEnv ?wN)) = None \<or> snd (fst (sample toyEnv ?wN)) = None"
    by (simp add: sample_def toyEnv_def Math_floor_def getRandomColorWithLightness_def Let_def
        MAX_STEP_def)
  have n: "snd (iteration toyEnv ?wN) = NoColors
      \<and> state (fst (iteration toyEnv ?wN)) = state ?wN
      \<and> filters (fst (iteration toyEnv ?wN)) = filters ?wN"
    using discarded_iteration_frame [of toyEnv ?wN] sN by blast
  from e g h b n show ?thesis by (simp add: gap_initial)
qed

end
